theory Spec2Isabelle
  imports Main
begin

section \<open>The viewer of brackets-viewer.js: \<^verbatim>\<open>src/main.ts\<close>\<close>

text \<open>
  The class \<^verbatim>\<open>BracketsViewer\<close> turns tournament data (stages, matches, participants)
  into a tree of DOM elements. The model follows \<^verbatim>\<open>main.ts\<close> method by method.

  \<^item> JavaScript numbers that hold identifiers, scores and positions are \<open>int\<close>; counters
    that start at 1 and lengths are \<open>nat\<close>.
  \<^item> \<^verbatim>\<open>null\<close> and \<^verbatim>\<open>undefined\<close> are \<open>None\<close>.
  \<^item> A \<^verbatim>\<open>throw\<close> is a result \<open>Inl e\<close>; reading a property of \<^verbatim>\<open>undefined\<close>
    (the first element of an empty array) is \<open>Inl TypeError\<close>.
  \<^item> The object fields the methods assign (\<^verbatim>\<open>participantRefs\<close>, \<^verbatim>\<open>participants\<close>,
    \<^verbatim>\<open>config\<close>, \<^verbatim>\<open>skipFirstRound\<close>) are a record passed in and returned.
  \<^item> The modules \<^verbatim>\<open>dom\<close>, \<^verbatim>\<open>lang\<close> and \<^verbatim>\<open>helpers\<close> are imported by
    \<^verbatim>\<open>main.ts\<close> and their sources are not part of it. An element built by \<^verbatim>\<open>dom\<close> is
    the record of the calls that built it; the functions of \<^verbatim>\<open>lang\<close> and
    \<^verbatim>\<open>helpers\<close> whose results \<^verbatim>\<open>main.ts\<close> computes with are the fields of a record
    \<open>Modules\<close> that every method takes as its first argument.
\<close>

subsection \<open>Input data (package brackets-model, as \<^verbatim>\<open>main.ts\<close> reads it)\<close>

record Participant =
  id_P :: int
  name_P :: string

record ParticipantImage =
  participantId :: int
  imageUrl :: string

datatype Result = win | draw | loss

record ParticipantResult =
  id_R :: "int option"
  position :: "int option"
  score :: "int option"
  result :: "Result option"

record Match =
  id_M :: int
  stage_id :: int
  group_id :: int
  round_id :: int
  number :: int
  child_count :: int
  status :: string
  opponent1 :: "ParticipantResult option"
  opponent2 :: "ParticipantResult option"

record StageSettings =
  skipFirstRound_S :: "bool option"

record Stage =
  id_S :: int
  name_S :: string
  type_S :: string
  settings :: StageSettings

record ViewerData =
  stages_D :: "Stage list"
  matches_D :: "Match list"
  participants_D :: "Participant list"

subsection \<open>Types of \<^verbatim>\<open>types.ts\<close>, as \<^verbatim>\<open>main.ts\<close> uses them\<close>

datatype Placement = none | before | after

datatype BracketType = single_bracket | winner_bracket | loser_bracket | final_group

datatype FinalType = consolation_final | grand_final

type_synonym OriginHint = "(int \<Rightarrow> string) option"

type_synonym RoundName = "nat \<Rightarrow> nat \<Rightarrow> string"

text \<open>A ranking item is an object; \<^verbatim>\<open>for (const prop in item)\<close> visits its properties
  in order, so it is the list of its properties.\<close>

type_synonym RankingItem = "(string \<times> int) list"

record Config =
  participantOriginPlacement :: Placement
  separatedChildCountLabel :: bool
  showSlotsOrigin :: bool
  showLowerBracketSlotsOrigin :: bool
  highlightParticipantOnHover :: bool

text \<open>\<^verbatim>\<open>Partial<Config>\<close>, with the \<^verbatim>\<open>selector\<close> that \<^verbatim>\<open>render\<close> reads from it.\<close>

record PartialConfig =
  participantOriginPlacement_opt :: "Placement option"
  separatedChildCountLabel_opt :: "bool option"
  showSlotsOrigin_opt :: "bool option"
  showLowerBracketSlotsOrigin_opt :: "bool option"
  highlightParticipantOnHover_opt :: "bool option"
  selector :: "string option"

subsection \<open>Errors\<close>

datatype Error = Error string | TypeError

subsection \<open>The imported modules \<^verbatim>\<open>lang\<close> and \<^verbatim>\<open>helpers\<close>\<close>

record Modules =
  getGroupName :: "nat \<Rightarrow> string"
  getRoundName :: RoundName
  getWinnerBracketRoundName :: RoundName
  getLoserBracketRoundName :: RoundName
  getFinalMatchLabel :: "FinalType \<Rightarrow> nat \<Rightarrow> nat \<Rightarrow> string"
  getMatchLabel :: "int \<Rightarrow> nat \<Rightarrow> nat \<Rightarrow> BracketType \<Rightarrow> string"
  getOriginHint :: "nat \<Rightarrow> nat \<Rightarrow> bool \<Rightarrow> BracketType \<Rightarrow> OriginHint"
  getFinalOriginHint :: "FinalType \<Rightarrow> nat \<Rightarrow> OriginHint"
  bestOfX :: "int \<Rightarrow> string"
  getMatchStatus :: "string \<Rightarrow> string"
  BYE :: string
  splitBy :: "Match list \<Rightarrow> (Match \<Rightarrow> int) \<Rightarrow> Match list list"
  getRanking :: "Match list \<Rightarrow> RankingItem list"
  getOriginAbbreviation :: "BracketType \<Rightarrow> bool \<Rightarrow> nat option \<Rightarrow> string"

subsection \<open>Elements built through \<^verbatim>\<open>dom\<close>\<close>

text \<open>\<^verbatim>\<open>dom.getBracketConnection\<close> and \<^verbatim>\<open>dom.getFinalConnection\<close> return a
  descriptor that \<^verbatim>\<open>main.ts\<close> only hands on to \<^verbatim>\<open>dom.setupConnection\<close>: the
  descriptor is the call with its arguments.\<close>

datatype Connection =
    getBracketConnection nat nat BracketType "bool option"
  | getFinalConnection FinalType nat nat

text \<open>The name container of a participant: its \<^verbatim>\<open>innerText\<close>, and the arguments of
  \<^verbatim>\<open>dom.addParticipantImage\<close>, \<^verbatim>\<open>dom.addParticipantOrigin\<close> and
  \<^verbatim>\<open>dom.setupHint\<close> when they were called on it.\<close>

record NameContainer =
  innerText :: "string option"
  image :: "string option"
  origin :: "(string \<times> Placement) option"
  hint :: "string option"

text \<open>The three containers of \<^verbatim>\<open>createParticipant\<close>, the name and the result container
  being the children of the participant container: the argument of
  \<^verbatim>\<open>dom.createParticipantContainer\<close>, the \<^verbatim>\<open>title\<close> attribute, the text of the
  result container, and the participant result given to \<^verbatim>\<open>dom.setupWin\<close> and
  \<^verbatim>\<open>dom.setupLoss\<close>.\<close>

record ParticipantContainers =
  participant_data :: "int option"
  title :: "string option"
  name :: NameContainer
  result_text :: "string option"
  setupWinLoss :: "ParticipantResult option"

text \<open>A match container: the arguments of \<^verbatim>\<open>dom.createMatchContainer\<close>, of
  \<^verbatim>\<open>dom.createMatchLabel\<close> and of \<^verbatim>\<open>dom.createChildCountLabel\<close> when they were
  called, the two participants, and the connection given to \<^verbatim>\<open>dom.setupConnection\<close>.\<close>

record MatchContainer =
  match_data :: "int \<times> string"
  label_M :: "(string \<times> string) option"
  childCountLabel_M :: "string option"
  participant1_M :: ParticipantContainers
  participant2_M :: ParticipantContainers
  connection_M :: "Connection option"

record RoundContainer =
  round_data :: int
  round_name :: string
  round_matches :: "MatchContainer list"

datatype Cell = CellText string | CellNumber int

record RankingTable =
  headers :: "RankingItem list"
  rows :: "Cell list list"

record GroupContainer =
  group_data :: int
  group_name :: string
  group_rounds :: "RoundContainer list"
  ranking :: RankingTable

text \<open>The children of the root fragment. \<^verbatim>\<open>dom.createBracketContainer\<close> builds the
  elements of class \<^verbatim>\<open>bracket\<close> that \<^verbatim>\<open>renderFinal\<close> looks for.\<close>

datatype Node =
    Title string
  | RoundRobinContainer int "GroupContainer list"
  | BracketContainer int "RoundContainer list"

text \<open>An element registered for hover highlighting: a participant container or a cell of
  the ranking table. The two listeners \<^verbatim>\<open>setupMouseHover\<close> adds to an element act on the
  list the element was pushed to, so the list stands for them.\<close>

datatype HTMLElement = ParticipantElement ParticipantContainers | CellElement Cell

subsection \<open>The state of the viewer\<close>

record BracketsViewer =
  participantRefs :: "int \<rightharpoonup> HTMLElement list"
  participants :: "Participant list"
  participantImages :: "ParticipantImage list"
  config :: Config
  skipFirstRound :: bool

subsection \<open>Template strings\<close>

fun show_nat :: "nat \<Rightarrow> string" where
  "show_nat n =
     (if n < 10 then [''0123456789'' ! n]
      else show_nat (n div 10) @ [''0123456789'' ! (n mod 10)])"

declare show_nat.simps [simp del]

definition show_int :: "int \<Rightarrow> string" where
  "show_int i = (if i < 0 then CHR ''-'' # show_nat (nat (- i)) else show_nat (nat i))"

subsection \<open>Loops that may throw\<close>

text \<open>A \<^verbatim>\<open>for ... of\<close> loop whose body updates the viewer, builds one element and may
  throw: the first throw ends the loop.\<close>

fun mapE :: "('s \<Rightarrow> 'a \<Rightarrow> Error + ('s \<times> 'b)) \<Rightarrow> 's \<Rightarrow> 'a list \<Rightarrow> Error + ('s \<times> 'b list)" where
  "mapE f s [] = Inr (s, [])"
| "mapE f s (x # xs) =
     (case f s x of
        Inl e \<Rightarrow> Inl e
      | Inr (s', y) \<Rightarrow>
          (case mapE f s' xs of
             Inl e \<Rightarrow> Inl e
           | Inr (s'', ys) \<Rightarrow> Inr (s'', y # ys)))"

text \<open>\<^verbatim>\<open>forEach\<close> with a body that updates a state and may throw.\<close>

fun forEachE :: "('s \<Rightarrow> 'a \<Rightarrow> Error + 's) \<Rightarrow> 's \<Rightarrow> 'a list \<Rightarrow> Error + 's" where
  "forEachE f s [] = Inr s"
| "forEachE f s (x # xs) =
     (case f s x of
        Inl e \<Rightarrow> Inl e
      | Inr s' \<Rightarrow> forEachE f s' xs)"

subsection \<open>Participants\<close>

text \<open>\<^verbatim>\<open>setupMouseHover\<close> (lines 468-486).\<close>

definition setupMouseHover :: "BracketsViewer \<Rightarrow> int \<Rightarrow> HTMLElement \<Rightarrow> Error + BracketsViewer" where
  "setupMouseHover v pid element =
     (if \<not> highlightParticipantOnHover (config v) then Inr v
      else
        (case participantRefs v pid of
           None \<Rightarrow>
             Inl (Error (''The participant (id: '' @ show_int pid
                           @ '') does not exist in the participants table.''))
         | Some refs \<Rightarrow>
             Inr (v\<lparr>participantRefs := (participantRefs v)(pid \<mapsto> refs @ [element])\<rparr>)))"

text \<open>\<^verbatim>\<open>renderParticipantImage\<close> (lines 422-425).\<close>

definition renderParticipantImage :: "BracketsViewer \<Rightarrow> NameContainer \<Rightarrow> int \<Rightarrow> NameContainer" where
  "renderParticipantImage v nameContainer pid =
     (case find (\<lambda>item. participantId item = pid) (participantImages v) of
        None \<Rightarrow> nameContainer
      | Some found \<Rightarrow> nameContainer\<lparr>image := Some (imageUrl found)\<rparr>)"

text \<open>\<^verbatim>\<open>renderHint\<close> (lines 435-441).\<close>

definition renderHint ::
  "BracketsViewer \<Rightarrow> NameContainer \<Rightarrow> ParticipantResult \<Rightarrow> OriginHint \<Rightarrow> BracketType option
    \<Rightarrow> NameContainer" where
  "renderHint v nameContainer participant originHint matchLocation =
     (case originHint of
        None \<Rightarrow> nameContainer
      | Some h \<Rightarrow>
          (case position participant of
             None \<Rightarrow> nameContainer
           | Some pos \<Rightarrow>
               if \<not> showSlotsOrigin (config v) then nameContainer
               else if \<not> showLowerBracketSlotsOrigin (config v)
                       \<and> matchLocation = Some loser_bracket then nameContainer
               else nameContainer\<lparr>hint := Some (h pos)\<rparr>))"

text \<open>\<^verbatim>\<open>renderParticipantOrigin\<close> (lines 451-460). The placement is one of three
  non-empty strings, so \<^verbatim>\<open>!this.config.participantOriginPlacement\<close> is false.\<close>

definition renderParticipantOrigin ::
  "Modules \<Rightarrow> BracketsViewer \<Rightarrow> NameContainer \<Rightarrow> ParticipantResult \<Rightarrow> BracketType option
    \<Rightarrow> nat option \<Rightarrow> NameContainer" where
  "renderParticipantOrigin E v nameContainer participant matchLocation roundNumber =
     (case position participant of
        None \<Rightarrow> nameContainer
      | Some pos \<Rightarrow>
          (case matchLocation of
             None \<Rightarrow> nameContainer
           | Some location \<Rightarrow>
               if participantOriginPlacement (config v) = none then nameContainer
               else if \<not> showSlotsOrigin (config v) then nameContainer
               else if \<not> showLowerBracketSlotsOrigin (config v)
                       \<and> location = loser_bracket then nameContainer
               else nameContainer\<lparr>origin :=
                 Some (getOriginAbbreviation E location (skipFirstRound v) roundNumber
                         @ show_int pos,
                       participantOriginPlacement (config v))\<rparr>))"

text \<open>The lookup \<^verbatim>\<open>this.participants.find(item => item.id === participant.id)\<close>: no
  participant has the id \<^verbatim>\<open>null\<close>.\<close>

definition findParticipant :: "BracketsViewer \<Rightarrow> int option \<Rightarrow> Participant option" where
  "findParticipant v pid =
     (case pid of
        None \<Rightarrow> None
      | Some i \<Rightarrow> find (\<lambda>item. id_P item = i) (participants v))"

text \<open>\<^verbatim>\<open>renderParticipant\<close> (lines 399-414).\<close>

definition renderParticipant ::
  "Modules \<Rightarrow> BracketsViewer \<Rightarrow> ParticipantContainers \<Rightarrow> ParticipantResult \<Rightarrow> OriginHint
    \<Rightarrow> BracketType option \<Rightarrow> nat option \<Rightarrow> ParticipantContainers" where
  "renderParticipant E v containers participant originHint matchLocation roundNumber =
     (let rendered =
        (case findParticipant v (id_R participant) of
           Some found \<Rightarrow>
             containers\<lparr>
               title := Some (name_P found),
               name :=
                 renderParticipantOrigin E v
                   (renderParticipantImage v
                      ((name containers)\<lparr>innerText := Some (name_P found)\<rparr>) (id_P found))
                   participant matchLocation roundNumber\<rparr>
         | None \<Rightarrow>
             containers\<lparr>name :=
               renderHint v (name containers) participant originHint matchLocation\<rparr>)
      in rendered\<lparr>
           result_text :=
             Some (case score participant of None \<Rightarrow> ''-'' | Some s \<Rightarrow> show_int s),
           setupWinLoss := Some participant\<rparr>)"

text \<open>The containers \<^verbatim>\<open>createParticipant\<close> starts from:
  \<^verbatim>\<open>dom.createParticipantContainer(participant && participant.id)\<close> with an empty name
  container and an empty result container.\<close>

definition newContainers :: "ParticipantResult option \<Rightarrow> ParticipantContainers" where
  "newContainers participant =
     \<lparr>participant_data = (case participant of None \<Rightarrow> None | Some p \<Rightarrow> id_R p),
      title = None,
      name = \<lparr>innerText = None, image = None, origin = None, hint = None\<rparr>,
      result_text = None,
      setupWinLoss = None\<rparr>"

text \<open>\<^verbatim>\<open>createParticipant\<close> (lines 370-388).\<close>

definition createParticipant ::
  "Modules \<Rightarrow> BracketsViewer \<Rightarrow> ParticipantResult option \<Rightarrow> OriginHint \<Rightarrow> BracketType option
    \<Rightarrow> nat option \<Rightarrow> Error + (BracketsViewer \<times> ParticipantContainers)" where
  "createParticipant E v participant originHint matchLocation roundNumber =
     (let containers =
        (case participant of
           None \<Rightarrow>
             (newContainers participant)\<lparr>name :=
               (name (newContainers participant))\<lparr>innerText := Some (BYE E)\<rparr>\<rparr>
         | Some p \<Rightarrow>
             renderParticipant E v (newContainers participant) p originHint matchLocation
               roundNumber)
      in
        (case participant of
           None \<Rightarrow> Inr (v, containers)
         | Some p \<Rightarrow>
             (case id_R p of
                None \<Rightarrow> Inr (v, containers)
              | Some pid \<Rightarrow>
                  (case setupMouseHover v pid (ParticipantElement containers) of
                     Inl e \<Rightarrow> Inl e
                   | Inr v' \<Rightarrow> Inr (v', containers)))))"

subsection \<open>Matches\<close>

text \<open>\<^verbatim>\<open>createMatch\<close> (lines 334-360). \<^verbatim>\<open>if (label)\<close> holds for a string that is
  neither \<^verbatim>\<open>undefined\<close> nor empty; a connection object, when given, is truthy.\<close>

definition createMatch ::
  "Modules \<Rightarrow> BracketsViewer \<Rightarrow> Match \<Rightarrow> BracketType option \<Rightarrow> Connection option
    \<Rightarrow> string option \<Rightarrow> OriginHint \<Rightarrow> nat option
    \<Rightarrow> Error + (BracketsViewer \<times> MatchContainer)" where
  "createMatch E v match matchLocation connection label originHint roundNumber =
     (case createParticipant E v (opponent1 match) originHint matchLocation roundNumber of
        Inl e \<Rightarrow> Inl e
      | Inr (v1, participant1) \<Rightarrow>
          (case createParticipant E v1 (opponent2 match) originHint matchLocation roundNumber of
             Inl e \<Rightarrow> Inl e
           | Inr (v2, participant2) \<Rightarrow>
               Inr (v2,
                 \<lparr>match_data = (id_M match, status match),
                  label_M =
                    (case label of
                       None \<Rightarrow> None
                     | Some l \<Rightarrow>
                         if l = [] then None
                         else Some
                           (if child_count match > 0 \<and> \<not> separatedChildCountLabel (config v)
                            then l @ '', '' @ bestOfX E (child_count match)
                            else l,
                            getMatchStatus E (status match))),
                  childCountLabel_M =
                    (if child_count match > 0 \<and> separatedChildCountLabel (config v)
                     then Some (bestOfX E (child_count match)) else None),
                  participant1_M = participant1,
                  participant2_M = participant2,
                  connection_M = connection\<rparr>)))"

text \<open>\<^verbatim>\<open>createBracketMatch\<close> (lines 301-306).\<close>

definition createBracketMatch ::
  "Modules \<Rightarrow> BracketsViewer \<Rightarrow> nat \<Rightarrow> nat \<Rightarrow> Match \<Rightarrow> BracketType \<Rightarrow> bool option
    \<Rightarrow> Error + (BracketsViewer \<times> MatchContainer)" where
  "createBracketMatch E v roundNumber roundCount match matchLocation connectFinal =
     (let connection = getBracketConnection roundNumber roundCount matchLocation connectFinal;
          matchLabel =
            getMatchLabel E (number match) roundNumber roundCount matchLocation
            @ (if child_count match > 0 then '', Bo'' @ show_int (child_count match) else []);
          originHint = getOriginHint E roundNumber roundCount (skipFirstRound v) matchLocation
      in createMatch E v match (Some matchLocation) (Some connection) (Some matchLabel)
           originHint (Some roundNumber))"

text \<open>Reading \<^verbatim>\<open>xs[i].field\<close>: past the end of the array, \<^verbatim>\<open>xs[i]\<close> is
  \<^verbatim>\<open>undefined\<close> and reading its field throws.\<close>

definition at :: "'a list \<Rightarrow> nat \<Rightarrow> Error + 'a" where
  "at xs i = (if i < length xs then Inr (xs ! i) else Inl TypeError)"

text \<open>\<^verbatim>\<open>createFinalMatch\<close> (lines 316-322).\<close>

definition createFinalMatch ::
  "Modules \<Rightarrow> BracketsViewer \<Rightarrow> FinalType \<Rightarrow> Match list \<Rightarrow> nat \<Rightarrow> nat
    \<Rightarrow> Error + (BracketsViewer \<times> MatchContainer)" where
  "createFinalMatch E v finalType ms roundNumber roundCount =
     (let roundIndex = roundNumber - 1;
          connection = getFinalConnection finalType roundNumber (length ms);
          matchLabel = getFinalMatchLabel E finalType roundNumber roundCount;
          originHint = getFinalOriginHint E finalType roundNumber
      in
        (case at ms roundIndex of
           Inl e \<Rightarrow> Inl e
         | Inr match \<Rightarrow>
             createMatch E v match (Some final_group) (Some connection) (Some matchLabel)
               originHint None))"

subsection \<open>Brackets and finals\<close>

text \<open>\<^verbatim>\<open>renderBracket\<close> (lines 201-220), after the body of its loop over the rounds
  (lines 208-217), which takes a round with its number.
  \<^verbatim>\<open>matchesByRound[0][0].group_id\<close> and \<^verbatim>\<open>matches[0].round_id\<close> throw on an empty
  list.\<close>

definition renderBracketRound ::
  "Modules \<Rightarrow> RoundName \<Rightarrow> nat \<Rightarrow> BracketType \<Rightarrow> bool option \<Rightarrow> BracketsViewer
    \<Rightarrow> nat \<times> Match list \<Rightarrow> Error + (BracketsViewer \<times> RoundContainer)" where
  "renderBracketRound E roundName roundCount bracketType connectFinal v numbered =
     (case numbered of
        (roundNumber, ms) \<Rightarrow>
          (case ms of
             [] \<Rightarrow> Inl TypeError
           | m0 # _ \<Rightarrow>
               (case mapE
                       (\<lambda>v1 match.
                          createBracketMatch E v1 roundNumber roundCount match bracketType
                            connectFinal)
                       v ms of
                  Inl e \<Rightarrow> Inl e
                | Inr (v', rendered) \<Rightarrow>
                    Inr (v',
                      \<lparr>round_data = round_id m0,
                       round_name = roundName roundNumber roundCount,
                       round_matches = rendered\<rparr>))))"

definition renderBracket ::
  "Modules \<Rightarrow> BracketsViewer \<Rightarrow> Node list \<Rightarrow> Match list list \<Rightarrow> RoundName \<Rightarrow> BracketType
    \<Rightarrow> bool option \<Rightarrow> Error + (BracketsViewer \<times> Node list)" where
  "renderBracket E v root matchesByRound roundName bracketType connectFinal =
     (case matchesByRound of
        [] \<Rightarrow> Inl TypeError
      | [] # _ \<Rightarrow> Inl TypeError
      | (first # _) # _ \<Rightarrow>
          (let groupId = group_id first;
               roundCount = length matchesByRound
           in
             (case mapE (renderBracketRound E roundName roundCount bracketType connectFinal)
                     v (enumerate 1 matchesByRound) of
                Inl e \<Rightarrow> Inl e
              | Inr (v', rounds) \<Rightarrow> Inr (v', root @ [BracketContainer groupId rounds]))))"

text \<open>\<^verbatim>\<open>root.querySelector('.bracket')\<close> is the first bracket container of the root,
  and \<^verbatim>\<open>upperBracket.append\<close> adds the rounds of the final to it.\<close>

fun isBracket :: "Node \<Rightarrow> bool" where
  "isBracket (BracketContainer g rounds) = True"
| "isBracket n = False"

fun appendToUpperBracket :: "Node list \<Rightarrow> RoundContainer list \<Rightarrow> Node list" where
  "appendToUpperBracket [] new = []"
| "appendToUpperBracket (BracketContainer g rounds # ns) new =
     BracketContainer g (rounds @ new) # ns"
| "appendToUpperBracket (n # ns) new = n # appendToUpperBracket ns new"

text \<open>The display count of \<^verbatim>\<open>renderFinal\<close> (line 234), from the first match of the
  final group: \<^verbatim>\<open>winnerWb?.id === null || winnerWb?.result === 'win' ? 1 : 2\<close>. When
  \<^verbatim>\<open>opponent1\<close> is \<^verbatim>\<open>null\<close> both optional chains give \<^verbatim>\<open>undefined\<close>.\<close>

definition displayCount :: "Match \<Rightarrow> nat" where
  "displayCount first =
     (case opponent1 first of
        None \<Rightarrow> 2
      | Some winnerWb \<Rightarrow>
          if id_R winnerWb = None \<or> result winnerWb = Some win then 1 else 2)"

text \<open>\<^verbatim>\<open>renderFinal\<close> (lines 229-245), after the body of its loop (lines 240-243),
  which takes the round index. The rounds are appended to the upper bracket one by one;
  a throw in the loop ends \<^verbatim>\<open>render\<close> before the root is attached to the page, so the
  model appends the rounds after the loop.\<close>

definition renderFinalRound ::
  "Modules \<Rightarrow> FinalType \<Rightarrow> Match list \<Rightarrow> nat \<Rightarrow> BracketsViewer \<Rightarrow> nat
    \<Rightarrow> Error + (BracketsViewer \<times> RoundContainer)" where
  "renderFinalRound E finalType finalMatches roundCount v roundIndex =
     (let roundNumber = roundIndex + 1 in
        (case at finalMatches roundIndex of
           Inl e \<Rightarrow> Inl e
         | Inr match \<Rightarrow>
             (case createFinalMatch E v finalType finalMatches roundNumber roundCount of
                Inl e \<Rightarrow> Inl e
              | Inr (v', rendered) \<Rightarrow>
                  Inr (v',
                    \<lparr>round_data = round_id match,
                     round_name = getFinalMatchLabel E finalType roundNumber roundCount,
                     round_matches = [rendered]\<rparr>))))"

definition renderFinal ::
  "Modules \<Rightarrow> BracketsViewer \<Rightarrow> Node list \<Rightarrow> FinalType \<Rightarrow> Match list
    \<Rightarrow> Error + (BracketsViewer \<times> Node list)" where
  "renderFinal E v root finalType ms =
     (if \<not> list_ex isBracket root then Inl (Error ''Upper bracket not found.'')
      else
        (case ms of
           [] \<Rightarrow> Inl TypeError
         | first # _ \<Rightarrow>
             (let finalMatches = take (displayCount first) ms;
                  roundCount = length ms
              in
                (case mapE (renderFinalRound E finalType finalMatches roundCount)
                        v [0..<length finalMatches] of
                   Inl e \<Rightarrow> Inl e
                 | Inr (v', rounds) \<Rightarrow> Inr (v', appendToUpperBracket root rounds)))))"

subsection \<open>Ranking table of a round-robin group\<close>

text \<open>\<^verbatim>\<open>createRankingRow\<close> (lines 269-290).\<close>

definition createRankingRow :: "BracketsViewer \<Rightarrow> RankingItem \<Rightarrow> Error + (BracketsViewer \<times> Cell list)" where
  "createRankingRow v item =
     mapE
       (\<lambda>v1 (prop, data).
          (case (if prop = ''id'' then find (\<lambda>participant. id_P participant = data) (participants v1)
                 else None) of
             Some participant \<Rightarrow>
               (case setupMouseHover v1 (id_P participant)
                       (CellElement (CellText (name_P participant))) of
                  Inl e \<Rightarrow> Inl e
                | Inr v2 \<Rightarrow> Inr (v2, CellText (name_P participant)))
           | None \<Rightarrow> Inr (v1, CellNumber data)))
       v item"

text \<open>\<^verbatim>\<open>createRanking\<close> (lines 252-262).\<close>

definition createRanking :: "Modules \<Rightarrow> BracketsViewer \<Rightarrow> Match list \<Rightarrow> Error + (BracketsViewer \<times> RankingTable)" where
  "createRanking E v ms =
     (let ranking = getRanking E ms in
        (case mapE createRankingRow v ranking of
           Inl e \<Rightarrow> Inl e
         | Inr (v', cells) \<Rightarrow> Inr (v', \<lparr>headers = ranking, rows = cells\<rparr>)))"

subsection \<open>Stages\<close>

text \<open>\<^verbatim>\<open>renderRoundRobin\<close> (lines 114-141).\<close>

definition renderRoundRobin ::
  "Modules \<Rightarrow> BracketsViewer \<Rightarrow> Node list \<Rightarrow> Stage \<Rightarrow> Match list list
    \<Rightarrow> Error + (BracketsViewer \<times> Node list)" where
  "renderRoundRobin E v root stage matchesByGroup =
     (case mapE
             (\<lambda>v1 (groupNumber, groupMatches).
                (case groupMatches of
                   [] \<Rightarrow> Inl TypeError
                 | g0 # _ \<Rightarrow>
                     (case mapE
                             (\<lambda>v2 (roundNumber, roundMatches).
                                (case roundMatches of
                                   [] \<Rightarrow> Inl TypeError
                                 | r0 # _ \<Rightarrow>
                                     (case mapE
                                             (\<lambda>v3 match.
                                                createMatch E v3 match None None None None None)
                                             v2 roundMatches of
                                        Inl e \<Rightarrow> Inl e
                                      | Inr (v4, rendered) \<Rightarrow>
                                          Inr (v4,
                                            \<lparr>round_data = round_id r0,
                                             round_name = getRoundName E roundNumber 0,
                                             round_matches = rendered\<rparr>))))
                             v1 (enumerate 1 (splitBy E groupMatches round_id)) of
                        Inl e \<Rightarrow> Inl e
                      | Inr (v5, rounds) \<Rightarrow>
                          (case createRanking E v5 groupMatches of
                             Inl e \<Rightarrow> Inl e
                           | Inr (v6, table) \<Rightarrow>
                               Inr (v6,
                                 \<lparr>group_data = group_id g0,
                                  group_name = getGroupName E groupNumber,
                                  group_rounds = rounds,
                                  ranking = table\<rparr>)))))
             v (enumerate 1 matchesByGroup) of
        Inl e \<Rightarrow> Inl e
      | Inr (v', groups) \<Rightarrow>
          Inr (v', root @ [Title (name_S stage), RoundRobinContainer (id_S stage) groups]))"

text \<open>\<^verbatim>\<open>renderSingleElimination\<close> (lines 165-171). Without any group,
  \<^verbatim>\<open>matchesByGroup[0]\<close> is \<^verbatim>\<open>undefined\<close> and there is no first match to read.\<close>

definition renderSingleElimination ::
  "Modules \<Rightarrow> BracketsViewer \<Rightarrow> Node list \<Rightarrow> Match list list
    \<Rightarrow> Error + (BracketsViewer \<times> Node list)" where
  "renderSingleElimination E v root matchesByGroup =
     (let hasFinal = (1 < length matchesByGroup) in
        (case matchesByGroup of
           [] \<Rightarrow> Inl TypeError
         | g0 # _ \<Rightarrow>
             (case renderBracket E v root (splitBy E g0 round_id) (getRoundName E)
                     single_bracket None of
                Inl e \<Rightarrow> Inl e
              | Inr (v', root') \<Rightarrow>
                  if hasFinal then renderFinal E v' root' consolation_final (matchesByGroup ! 1)
                  else Inr (v', root'))))"

text \<open>\<^verbatim>\<open>renderDoubleElimination\<close> (lines 179-190).\<close>

definition renderDoubleElimination ::
  "Modules \<Rightarrow> BracketsViewer \<Rightarrow> Node list \<Rightarrow> Match list list
    \<Rightarrow> Error + (BracketsViewer \<times> Node list)" where
  "renderDoubleElimination E v root matchesByGroup =
     (let hasLoserBracket = (1 < length matchesByGroup);
          hasFinal = (2 < length matchesByGroup)
      in
        (case matchesByGroup of
           [] \<Rightarrow> Inl TypeError
         | g0 # _ \<Rightarrow>
             (case renderBracket E v root (splitBy E g0 round_id)
                     (getWinnerBracketRoundName E) winner_bracket (Some hasFinal) of
                Inl e \<Rightarrow> Inl e
              | Inr (v1, root1) \<Rightarrow>
                  (case (if hasLoserBracket
                         then renderBracket E v1 root1 (splitBy E (matchesByGroup ! 1) round_id)
                                (getLoserBracketRoundName E) loser_bracket None
                         else Inr (v1, root1)) of
                     Inl e \<Rightarrow> Inl e
                   | Inr (v2, root2) \<Rightarrow>
                       if hasFinal then renderFinal E v2 root2 grand_final (matchesByGroup ! 2)
                       else Inr (v2, root2)))))"

text \<open>\<^verbatim>\<open>renderElimination\<close> (lines 150-157).\<close>

definition renderElimination ::
  "Modules \<Rightarrow> BracketsViewer \<Rightarrow> Node list \<Rightarrow> Stage \<Rightarrow> Match list list
    \<Rightarrow> Error + (BracketsViewer \<times> Node list)" where
  "renderElimination E v root stage matchesByGroup =
     (if type_S stage = ''single_elimination''
      then renderSingleElimination E v (root @ [Title (name_S stage)]) matchesByGroup
      else renderDoubleElimination E v (root @ [Title (name_S stage)]) matchesByGroup)"

text \<open>\<^verbatim>\<open>renderStage\<close> (lines 88-105).\<close>

definition renderStage ::
  "Modules \<Rightarrow> BracketsViewer \<Rightarrow> Node list \<Rightarrow> ViewerData \<Rightarrow> Error + (BracketsViewer \<times> Node list)" where
  "renderStage E v root data =
     (case stages_D data of
        [] \<Rightarrow> Inl TypeError
      | stage # _ \<Rightarrow>
          (let matchesByGroup = splitBy E (matches_D data) group_id;
               v1 = v\<lparr>skipFirstRound :=
                      (case skipFirstRound_S (settings stage) of None \<Rightarrow> False | Some b \<Rightarrow> b)\<rparr>
           in
             if type_S stage = ''round_robin''
             then renderRoundRobin E v1 root stage matchesByGroup
             else if type_S stage = ''single_elimination'' \<or> type_S stage = ''double_elimination''
             then renderElimination E v1 root stage matchesByGroup
             else Inl (Error (''Unknown bracket type: '' @ type_S stage))))"

subsection \<open>The public methods\<close>

text \<open>The configuration \<^verbatim>\<open>render\<close> builds from its optional argument (lines 41-47).\<close>

definition makeConfig :: "PartialConfig option \<Rightarrow> Config" where
  "makeConfig cfg =
     \<lparr>participantOriginPlacement =
        (case cfg of
           None \<Rightarrow> before
         | Some c \<Rightarrow> (case participantOriginPlacement_opt c of None \<Rightarrow> before | Some p \<Rightarrow> p)),
      separatedChildCountLabel =
        (case cfg of
           None \<Rightarrow> False
         | Some c \<Rightarrow> (case separatedChildCountLabel_opt c of None \<Rightarrow> False | Some b \<Rightarrow> b)),
      showSlotsOrigin =
        (case cfg of
           None \<Rightarrow> True
         | Some c \<Rightarrow> (case showSlotsOrigin_opt c of None \<Rightarrow> True | Some b \<Rightarrow> b)),
      showLowerBracketSlotsOrigin =
        (case cfg of
           None \<Rightarrow> True
         | Some c \<Rightarrow> (case showLowerBracketSlotsOrigin_opt c of None \<Rightarrow> True | Some b \<Rightarrow> b)),
      highlightParticipantOnHover =
        (case cfg of
           None \<Rightarrow> True
         | Some c \<Rightarrow> (case highlightParticipantOnHover_opt c of None \<Rightarrow> True | Some b \<Rightarrow> b))\<rparr>"

text \<open>The start of \<^verbatim>\<open>render\<close> (lines 41-51): the configuration, the participants, and
  \<^verbatim>\<open>data.participants.forEach(participant => this.participantRefs[participant.id] = [])\<close>.\<close>

definition renderSetup :: "BracketsViewer \<Rightarrow> ViewerData \<Rightarrow> PartialConfig option \<Rightarrow> BracketsViewer" where
  "renderSetup v data cfg =
     v\<lparr>config := makeConfig cfg,
       participants := participants_D data,
       participantRefs :=
         foldl (\<lambda>refs participant. refs(id_P participant \<mapsto> [])) (participantRefs v)
           (participants_D data)\<rparr>"

text \<open>\<^verbatim>\<open>render\<close> (lines 38-60): the stages are rendered in order into one root
  fragment, and the first throw ends the call. The last line attaches the root to the
  page (\<^verbatim>\<open>findRoot\<close>), which is outside the model: the result is the root.\<close>

definition render ::
  "Modules \<Rightarrow> BracketsViewer \<Rightarrow> ViewerData \<Rightarrow> PartialConfig option
    \<Rightarrow> Error + (BracketsViewer \<times> Node list)" where
  "render E v data cfg =
     forEachE
       (\<lambda>(v1, root) stage.
          renderStage E v1 root
            (data\<lparr>stages_D := [stage],
                  matches_D := filter (\<lambda>match. stage_id match = id_S stage) (matches_D data)\<rparr>))
       (renderSetup v data cfg, []) (stages_D data)"

text \<open>\<^verbatim>\<open>setParticipantImages\<close> (lines 78-80).\<close>

definition setParticipantImages :: "BracketsViewer \<Rightarrow> ParticipantImage list \<Rightarrow> BracketsViewer" where
  "setParticipantImages v images = v\<lparr>participantImages := images\<rparr>"

text \<open>\<^verbatim>\<open>new BracketsViewer()\<close>: the index and both lists are empty. \<^verbatim>\<open>config\<close> and
  \<^verbatim>\<open>skipFirstRound\<close> are declared without a value and assigned by \<^verbatim>\<open>render\<close> and
  \<^verbatim>\<open>renderStage\<close> before any method reads them; here they hold the defaults.\<close>

definition newBracketsViewer :: BracketsViewer where
  "newBracketsViewer =
     \<lparr>participantRefs = Map.empty,
      participants = [],
      participantImages = [],
      config = makeConfig None,
      skipFirstRound = False\<rparr>"

section \<open>What the theorems observe\<close>

text \<open>The rounds of the upper bracket: the children of the first bracket container of a
  root, which is where \<^verbatim>\<open>renderFinal\<close> adds the rounds of a final.\<close>

fun upperBracketRounds :: "Node list \<Rightarrow> RoundContainer list" where
  "upperBracketRounds [] = []"
| "upperBracketRounds (BracketContainer g rounds # ns) = rounds"
| "upperBracketRounds (n # ns) = upperBracketRounds ns"

text \<open>The connections of the matches of the bracket containers of a root, in document
  order.\<close>

definition roundConnections :: "RoundContainer list \<Rightarrow> Connection option list" where
  "roundConnections rounds = concat (map (\<lambda>r. map connection_M (round_matches r)) rounds)"

fun nodeConnections :: "Node \<Rightarrow> Connection option list" where
  "nodeConnections (BracketContainer g rounds) = roundConnections rounds"
| "nodeConnections n = []"

definition connections :: "Node list \<Rightarrow> Connection option list" where
  "connections root = concat (map nodeConnections root)"

text \<open>The fields of the viewer that no method changes after the start of \<^verbatim>\<open>render\<close>.\<close>

definition settingsOf :: "BracketsViewer \<Rightarrow> Config \<times> Participant list \<times> ParticipantImage list" where
  "settingsOf v = (config v, participants v, participantImages v)"

text \<open>The viewer with the option \<^verbatim>\<open>showLowerBracketSlotsOrigin\<close> switched on, to compare
  what is rendered with and without it.\<close>

definition lowerOn :: "BracketsViewer \<Rightarrow> BracketsViewer" where
  "lowerOn v = v\<lparr>config := (config v)\<lparr>showLowerBracketSlotsOrigin := True\<rparr>\<rparr>"

section \<open>The modules that are not among the sources\<close>

text \<open>Modelled from the spec: \<^verbatim>\<open>helpers.splitBy\<close>, whose source is missing. Section 4.1:
  the sub-sequences hold the records that share a key value, in the order in which the
  key values first occur, each in input order.\<close>

fun splitBy_spec :: "'a list \<Rightarrow> ('a \<Rightarrow> int) \<Rightarrow> 'a list list" where
  "splitBy_spec [] key = []"
| "splitBy_spec (x # xs) key =
     (x # filter (\<lambda>y. key y = key x) xs)
     # splitBy_spec (filter (\<lambda>y. key y \<noteq> key x) xs) key"

text \<open>Modelled from the spec: the round names of \<^verbatim>\<open>lang\<close>, whose source is missing.
  Section 4.3: the last round is the final, the one before it the semi final, the one
  before that the quarter final, any other round is named by its number.\<close>

definition roundName_spec :: RoundName where
  "roundName_spec roundNumber roundCount =
     (if roundNumber = roundCount then ''Final''
      else if roundNumber + 1 = roundCount then ''Semi Final''
      else if roundNumber + 2 = roundCount then ''Quarter Final''
      else ''Round '' @ show_nat roundNumber)"

text \<open>Modelled from the spec: \<^verbatim>\<open>dom.getBracketConnection\<close>, whose source is missing.
  Section 4.7: round 1 never connects backward, every later round does; a round before
  the last connects forward to the next round; the last round of a winner bracket
  connects to the final group only if the caller asserts \<^verbatim>\<open>connectFinal\<close>.\<close>

record ConnectionSides =
  connectPrevious :: bool
  connectNext :: bool
  connectToFinal :: bool

definition bracketConnection_spec :: "nat \<Rightarrow> nat \<Rightarrow> BracketType \<Rightarrow> bool option \<Rightarrow> ConnectionSides" where
  "bracketConnection_spec roundNumber roundCount matchLocation connectFinal =
     \<lparr>connectPrevious = (1 < roundNumber),
      connectNext = (roundNumber < roundCount),
      connectToFinal =
        (roundNumber = roundCount \<and> matchLocation = winner_bracket \<and> connectFinal = Some True)\<rparr>"

text \<open>Modelled from the spec: one instance of the modules \<^verbatim>\<open>lang\<close> and
  \<^verbatim>\<open>helpers\<close>, to run the viewer on concrete data. Grouping and round names follow
  sections 4.1 and 4.3, an origin hint exists from the second round on (section 4.4), and
  the texts of the other labels are placeholders. The ranking engine is left out: the
  ranking is empty. The theorems about \<^verbatim>\<open>main.ts\<close> below hold for every instance.\<close>

definition sampleModules :: Modules where
  "sampleModules =
     \<lparr>getGroupName = (\<lambda>groupNumber. ''Group '' @ show_nat groupNumber),
      getRoundName = roundName_spec,
      getWinnerBracketRoundName = roundName_spec,
      getLoserBracketRoundName = roundName_spec,
      getFinalMatchLabel =
        (\<lambda>finalType roundNumber roundCount.
           if finalType = consolation_final then ''Consolation Final''
           else if roundNumber = 1 then ''Grand Final'' else ''Grand Final Reset''),
      getMatchLabel = (\<lambda>n roundNumber roundCount matchLocation. ''Match '' @ show_int n),
      getOriginHint =
        (\<lambda>roundNumber roundCount skip matchLocation.
           if roundNumber = 1 \<and> \<not> skip then None
           else Some (\<lambda>pos. ''Winner of match '' @ show_int pos)),
      getFinalOriginHint = (\<lambda>finalType roundNumber. None),
      bestOfX = (\<lambda>x. ''Best of '' @ show_int x),
      getMatchStatus = (\<lambda>s. s),
      BYE = ''BYE'',
      splitBy = splitBy_spec,
      getRanking = (\<lambda>ms. []),
      getOriginAbbreviation = (\<lambda>matchLocation skip roundNumber. ''#'')\<rparr>"

section \<open>Data for the examples\<close>

definition opponent :: "int option \<Rightarrow> Result option \<Rightarrow> ParticipantResult" where
  "opponent pid res = \<lparr>id_R = pid, position = Some 1, score = None, result = res\<rparr>"

text \<open>A pending match of stage 0 with the given id, group, round and first opponent; the
  second slot is a bye.\<close>

definition sampleMatch :: "int \<Rightarrow> int \<Rightarrow> int \<Rightarrow> ParticipantResult option \<Rightarrow> Match" where
  "sampleMatch i g r opp =
     \<lparr>id_M = i, stage_id = 0, group_id = g, round_id = r, number = 1, child_count = 0,
      status = ''pending'', opponent1 = opp, opponent2 = None\<rparr>"

definition sampleStage :: "string \<Rightarrow> Stage" where
  "sampleStage kind =
     \<lparr>id_S = 0, name_S = ''Stage'', type_S = kind, settings = \<lparr>skipFirstRound_S = None\<rparr>\<rparr>"

text \<open>A viewer whose roster is the single participant 7, after the start of a call of
  \<^verbatim>\<open>render\<close> without options.\<close>

definition rosterViewer :: BracketsViewer where
  "rosterViewer =
     renderSetup newBracketsViewer
       \<lparr>stages_D = [], matches_D = [], participants_D = [\<lparr>id_P = 7, name_P = ''Ann''\<rparr>]\<rparr>
       None"

text \<open>A single-elimination stage of one match whose first opponent is participant 7,
  with a roster that declares participant 7 and with an empty roster.\<close>

definition declaredData :: ViewerData where
  "declaredData =
     \<lparr>stages_D = [sampleStage ''single_elimination''],
      matches_D = [sampleMatch 0 0 0 (Some (opponent (Some 7) None))],
      participants_D = [\<lparr>id_P = 7, name_P = ''Ann''\<rparr>]\<rparr>"

definition undeclaredData :: ViewerData where
  "undeclaredData = declaredData\<lparr>participants_D := []\<rparr>"

text \<open>Data without stages whose roster is the single participant 8.\<close>

definition otherRoster :: ViewerData where
  "otherRoster =
     \<lparr>stages_D = [], matches_D = [], participants_D = [\<lparr>id_P = 8, name_P = ''Bob''\<rparr>]\<rparr>"

text \<open>The options that only switch the hover highlighting off.\<close>

definition hoverOff :: PartialConfig where
  "hoverOff =
     \<lparr>participantOriginPlacement_opt = None,
      separatedChildCountLabel_opt = None,
      showSlotsOrigin_opt = None,
      showLowerBracketSlotsOrigin_opt = None,
      highlightParticipantOnHover_opt = Some False,
      selector = None\<rparr>"

text \<open>The options that only switch the slot origins off, and those that only switch the
  slot origins of the loser bracket off.\<close>

definition originsOff :: PartialConfig where
  "originsOff = hoverOff\<lparr>highlightParticipantOnHover_opt := None, showSlotsOrigin_opt := Some False\<rparr>"

definition lowerOff :: PartialConfig where
  "lowerOff =
     hoverOff\<lparr>highlightParticipantOnHover_opt := None,
              showLowerBracketSlotsOrigin_opt := Some False\<rparr>"

text \<open>The groups of a double-elimination stage: a winner bracket of two rounds, a loser
  bracket of one match and a grand final of one match.\<close>

definition doubleGroups :: "Match list list" where
  "doubleGroups =
     [[sampleMatch 0 0 0 (Some (opponent (Some 7) None)),
       sampleMatch 1 0 1 (Some (opponent (Some 7) None))],
      [sampleMatch 2 1 2 (Some (opponent None None))],
      [sampleMatch 3 2 3 (Some (opponent None None))]]"

text \<open>A grand final of two matches whose first opponent lost the first match.\<close>

definition finalOfTwo :: "Match list" where
  "finalOfTwo =
     [sampleMatch 1 2 11 (Some (opponent (Some 7) (Some loss))),
      sampleMatch 2 2 12 (Some (opponent (Some 7) None))]"

section \<open>Loops and errors\<close>

lemma mapE_all2:
  "mapE f s xs = Inr (s', ys) \<Longrightarrow> list_all2 (\<lambda>x y. \<exists>s1 s2. f s1 x = Inr (s2, y)) xs ys"
proof (induction xs arbitrary: s ys)
  case Nil
  then show ?case by simp
next
  case (Cons x xs)
  then show ?case
    by (auto split: sum.splits prod.splits)
qed

lemma mapE_error:
  "mapE f s xs = Inl e \<Longrightarrow> \<exists>x \<in> set xs. \<exists>s1. f s1 x = Inl e"
  by (induction xs arbitrary: s) (auto split: sum.splits prod.splits)

lemma setupMouseHover_error:
  "setupMouseHover v pid el = Inl e \<Longrightarrow> e \<noteq> TypeError"
  by (auto simp: setupMouseHover_def split: if_splits option.splits)

lemma createParticipant_error:
  "createParticipant E v p oh loc rn = Inl e \<Longrightarrow> e \<noteq> TypeError"
  by (auto simp: createParticipant_def Let_def dest: setupMouseHover_error split: option.splits sum.splits)

lemma createMatch_error:
  "createMatch E v m loc c l oh rn = Inl e \<Longrightarrow> e \<noteq> TypeError"
  by (auto simp: createMatch_def dest: createParticipant_error split: sum.splits prod.splits)

lemma createMatch_connection:
  "createMatch E v m loc c l oh rn = Inr (v', mc) \<Longrightarrow> connection_M mc = c"
  by (auto simp: createMatch_def split: sum.splits prod.splits)

lemma upperBracketRounds_append:
  "list_ex isBracket root \<Longrightarrow>
     upperBracketRounds (appendToUpperBracket root new) = upperBracketRounds root @ new"
  by (induction root new rule: appendToUpperBracket.induct) auto

lemma createFinalMatch_error:
  "createFinalMatch E v ft ms (Suc i) rc = Inl e \<Longrightarrow> i < length ms \<Longrightarrow> e \<noteq> TypeError"
  by (auto simp: createFinalMatch_def at_def Let_def dest: createMatch_error)

section \<open>Numbers in messages\<close>

text \<open>The decimal text of a number determines the number, so a message that contains the
  text of an id identifies the id.\<close>

lemma digit_inj:
  "m < 10 \<Longrightarrow> n < 10 \<Longrightarrow> ''0123456789'' ! m = ''0123456789'' ! n \<Longrightarrow> m = n"
proof -
  have d: "distinct ''0123456789''" by simp
  have l: "length ''0123456789'' = 10" by simp
  show "m < 10 \<Longrightarrow> n < 10 \<Longrightarrow> ''0123456789'' ! m = ''0123456789'' ! n \<Longrightarrow> m = n"
    using d l by (metis nth_eq_iff_index_eq)
qed

lemma show_nat_digits: "set (show_nat n) \<subseteq> set ''0123456789''"
proof (induction n rule: show_nat.induct)
  case (1 n)
  have l: "length ''0123456789'' = 10" by simp
  have m: "''0123456789'' ! (n mod 10) \<in> set ''0123456789''"
  proof (rule nth_mem)
    show "n mod 10 < length ''0123456789''" unfolding l by simp
  qed
  show ?case
  proof (cases "n < 10")
    case True
    then have "''0123456789'' ! n \<in> set ''0123456789''"
      by (intro nth_mem) (simp only: l)
    with True show ?thesis by (subst show_nat.simps) simp
  next
    case False
    with 1 m show ?thesis by (subst show_nat.simps) simp
  qed
qed

lemma show_nat_nonempty: "show_nat n \<noteq> []"
  by (subst show_nat.simps) simp

lemma show_nat_inj: "show_nat m = show_nat n \<Longrightarrow> m = n"
proof (induction m arbitrary: n rule: show_nat.induct)
  case (1 m)
  show ?case
  proof (cases "m < 10")
    case m: True
    show ?thesis
    proof (cases "n < 10")
      case True
      with m 1(2) show ?thesis
        by (simp add: show_nat.simps [of m] show_nat.simps [of n] digit_inj)
    next
      case False
      with m 1(2) show ?thesis
        by (simp add: show_nat.simps [of m] show_nat.simps [of n] show_nat_nonempty
            show_nat_nonempty [THEN not_sym])
    qed
  next
    case m: False
    show ?thesis
    proof (cases "n < 10")
      case True
      with m 1(2) show ?thesis
        by (simp add: show_nat.simps [of m] show_nat.simps [of n] show_nat_nonempty
            show_nat_nonempty [THEN not_sym])
    next
      case False
      with m 1(2) have e: "show_nat (m div 10) = show_nat (n div 10)"
        and d: "''0123456789'' ! (m mod 10) = ''0123456789'' ! (n mod 10)"
        by (simp_all add: show_nat.simps [of m] show_nat.simps [of n])
      from 1(1) [OF m e] have "m div 10 = n div 10" .
      moreover from d have "m mod 10 = n mod 10"
        by (intro digit_inj) simp_all
      ultimately show ?thesis
        by (metis div_mult_mod_eq)
    qed
  qed
qed

lemma show_int_inj: "show_int i = show_int j \<Longrightarrow> i = j"
proof -
  have no_minus: "CHR ''-'' \<notin> set (show_nat k)" for k
    using show_nat_digits [of k] by auto
  have hd_digit: "show_nat k \<noteq> CHR ''-'' # s" for k s
    using no_minus [of k] by auto
  assume a: "show_int i = show_int j"
  show ?thesis
  proof (cases "i < 0")
    case i: True
    show ?thesis
    proof (cases "j < 0")
      case True
      with i a have "nat (- i) = nat (- j)"
        by (auto simp: show_int_def dest: show_nat_inj)
      with i True show ?thesis by simp
    next
      case False
      with i a hd_digit [of "nat j" "show_nat (nat (- i))"] show ?thesis
        by (simp add: show_int_def)
    qed
  next
    case i: False
    show ?thesis
    proof (cases "j < 0")
      case True
      with i a hd_digit [of "nat i" "show_nat (nat (- j))"] show ?thesis
        by (simp add: show_int_def)
    next
      case False
      with i a have "nat i = nat j"
        by (auto simp: show_int_def dest: show_nat_inj)
      with i False show ?thesis by simp
    qed
  qed
qed

section \<open>The final group\<close>

lemma renderFinalRound_Inr:
  "renderFinalRound E ft fm rc v i = Inr (v', r) \<Longrightarrow>
     i < length fm \<and> round_data r = round_id (fm ! i) \<and>
     (\<exists>mc. round_matches r = [mc] \<and>
        connection_M mc = Some (getFinalConnection ft (Suc i) (length fm)))"
  by (auto simp: renderFinalRound_def createFinalMatch_def at_def Let_def
      dest: createMatch_connection split: if_splits sum.splits prod.splits)

lemma renderFinalRound_error:
  "renderFinalRound E ft fm rc v i = Inl e \<Longrightarrow> i < length fm \<Longrightarrow> e \<noteq> TypeError"
  by (auto simp: renderFinalRound_def at_def Let_def dest: createFinalMatch_error
      split: if_splits sum.splits prod.splits)

text \<open>A final that is rendered adds one round per match of the slice
  \<^verbatim>\<open>matches.slice(0, displayCount)\<close> to the upper bracket, in order, each with a
  connection of a final.\<close>

lemma renderFinal_Inr:
  assumes "renderFinal E v root ft ms = Inr (v', root')"
  shows "list_ex isBracket root \<and> ms \<noteq> [] \<and>
         (\<exists>rounds. root' = appendToUpperBracket root rounds \<and>
            map round_data rounds = map round_id (take (displayCount (hd ms)) ms) \<and>
            (\<forall>c \<in> set (roundConnections rounds). \<exists>k n. c = Some (getFinalConnection ft k n)))"
proof -
  define fm where "fm = take (displayCount (hd ms)) ms"
  from assms obtain rounds where br: "list_ex isBracket root" and ne: "ms \<noteq> []"
    and m: "mapE (renderFinalRound E ft fm (length ms)) v [0..<length fm] = Inr (v', rounds)"
    and r: "root' = appendToUpperBracket root rounds"
    by (auto simp: renderFinal_def Let_def fm_def split: if_splits list.splits sum.splits prod.splits)
  from mapE_all2 [OF m] have
    a: "list_all2 (\<lambda>i y. round_data y = round_id (fm ! i) \<and>
          (\<exists>mc. round_matches y = [mc] \<and>
             connection_M mc = Some (getFinalConnection ft (Suc i) (length fm))))
          [0..<length fm] rounds"
    by (rule list_all2_mono) (auto dest: renderFinalRound_Inr)
  then have len: "length rounds = length fm"
    by (simp add: list_all2_lengthD [symmetric])
  have "map round_data rounds = map round_id fm"
  proof (rule nth_equalityI)
    show "length (map round_data rounds) = length (map round_id fm)" using len by simp
  next
    fix i assume "i < length (map round_data rounds)"
    then have i: "i < length fm" using len by simp
    with a have "round_data (rounds ! i) = round_id (fm ! ([0..<length fm] ! i))"
      by (simp add: list_all2_conv_all_nth)
    with i len show "map round_data rounds ! i = map round_id fm ! i" by simp
  qed
  moreover have "\<forall>c \<in> set (roundConnections rounds). \<exists>k n. c = Some (getFinalConnection ft k n)"
  proof
    fix c assume "c \<in> set (roundConnections rounds)"
    then obtain y mc where y: "y \<in> set rounds" and mc: "mc \<in> set (round_matches y)"
      and c: "c = connection_M mc"
      by (auto simp: roundConnections_def)
    from y obtain i where "i < length rounds" "rounds ! i = y"
      by (auto simp: in_set_conv_nth)
    with a have "\<exists>mc. round_matches y = [mc] \<and>
             connection_M mc = Some (getFinalConnection ft (Suc ([0..<length fm] ! i)) (length fm))"
      by (auto simp: list_all2_conv_all_nth)
    with mc c show "\<exists>k n. c = Some (getFinalConnection ft k n)" by auto
  qed
  ultimately show ?thesis using br ne r by (auto simp: fm_def)
qed

lemma renderFinal_no_TypeError:
  assumes "ms \<noteq> []"
  shows "renderFinal E v root ft ms \<noteq> Inl TypeError"
proof
  assume t: "renderFinal E v root ft ms = Inl TypeError"
  define fm where "fm = take (displayCount (hd ms)) ms"
  from t assms have
    "mapE (renderFinalRound E ft fm (length ms)) v [0..<length fm] = Inl TypeError"
    by (auto simp: renderFinal_def Let_def fm_def split: if_splits list.splits sum.splits prod.splits)
  from mapE_error [OF this] obtain i s1 where
    i: "i < length fm" and e: "renderFinalRound E ft fm (length ms) s1 i = Inl TypeError"
    by auto
  from renderFinalRound_error [OF e i] show False by simp
qed

lemma displayCount_cases: "displayCount m = 1 \<or> displayCount m = 2"
  by (simp add: displayCount_def split: option.splits)

lemma createMatch_match_data:
  "createMatch E v m loc c l oh rn = Inr (v', mc) \<Longrightarrow> match_data mc = (id_M m, status m)"
  by (auto simp: createMatch_def split: sum.splits prod.splits)

lemma renderFinalRound_match:
  "renderFinalRound E ft fm rc v i = Inr (v', r) \<Longrightarrow>
     i < length fm \<and>
     (\<exists>mc. round_matches r = [mc] \<and>
        createMatch E v (fm ! i) (Some final_group)
          (Some (getFinalConnection ft (Suc i) (length fm)))
          (Some (getFinalMatchLabel E ft (Suc i) rc)) (getFinalOriginHint E ft (Suc i)) None
        = Inr (v', mc))"
  by (auto simp: renderFinalRound_def createFinalMatch_def at_def Let_def
      split: if_splits sum.splits prod.splits)

text \<open>The match of round \<open>i + 1\<close> of a rendered final is the rendering of match \<open>i\<close> of
  the final group.\<close>

lemma renderFinal_matches:
  assumes "renderFinal E v root ft ms = Inr (v', root')"
  shows "\<exists>rounds. upperBracketRounds root' = upperBracketRounds root @ rounds \<and>
           length rounds = min (displayCount (hd ms)) (length ms) \<and>
           (\<forall>i < length rounds. \<exists>v1 v2 mc.
              round_data (rounds ! i) = round_id (ms ! i) \<and>
              round_matches (rounds ! i) = [mc] \<and>
              createMatch E v1 (ms ! i) (Some final_group)
                (Some (getFinalConnection ft (Suc i) (length rounds)))
                (Some (getFinalMatchLabel E ft (Suc i) (length ms)))
                (getFinalOriginHint E ft (Suc i)) None
              = Inr (v2, mc))"
proof -
  define fm where "fm = take (displayCount (hd ms)) ms"
  from assms obtain rounds where br: "list_ex isBracket root" and
    m: "mapE (renderFinalRound E ft fm (length ms)) v [0..<length fm] = Inr (v', rounds)"
    and r: "root' = appendToUpperBracket root rounds"
    by (auto simp: renderFinal_def Let_def fm_def split: if_splits list.splits sum.splits prod.splits)
  from mapE_all2 [OF m] have
    a: "list_all2 (\<lambda>i y. i < length fm \<and> round_data y = round_id (fm ! i) \<and>
          (\<exists>v1 v2 mc. round_matches y = [mc] \<and>
          createMatch E v1 (fm ! i) (Some final_group)
            (Some (getFinalConnection ft (Suc i) (length fm)))
            (Some (getFinalMatchLabel E ft (Suc i) (length ms)))
            (getFinalOriginHint E ft (Suc i)) None
          = Inr (v2, mc)))
          [0..<length fm] rounds"
    by (rule list_all2_mono) (blast dest: renderFinalRound_match renderFinalRound_Inr)
  then have len: "length rounds = length fm"
    by (simp add: list_all2_lengthD [symmetric])
  have "\<exists>v1 v2 mc.
              round_data (rounds ! i) = round_id (ms ! i) \<and>
              round_matches (rounds ! i) = [mc] \<and>
              createMatch E v1 (ms ! i) (Some final_group)
                (Some (getFinalConnection ft (Suc i) (length rounds)))
                (Some (getFinalMatchLabel E ft (Suc i) (length ms)))
                (getFinalOriginHint E ft (Suc i)) None
              = Inr (v2, mc)" if i: "i < length rounds" for i
  proof -
    from i len have i': "i < length fm" by simp
    with a len have "round_data (rounds ! i) = round_id (fm ! i) \<and>
          (\<exists>v1 v2 mc. round_matches (rounds ! i) = [mc] \<and>
          createMatch E v1 (fm ! i) (Some final_group)
            (Some (getFinalConnection ft (Suc i) (length fm)))
            (Some (getFinalMatchLabel E ft (Suc i) (length ms)))
            (getFinalOriginHint E ft (Suc i)) None
          = Inr (v2, mc))"
      by (simp add: list_all2_conv_all_nth)
    moreover from i' have "fm ! i = ms ! i" by (simp add: fm_def)
    ultimately show ?thesis using len by auto
  qed
  moreover have "length rounds = min (displayCount (hd ms)) (length ms)"
    using len by (simp add: fm_def min.commute)
  moreover have "upperBracketRounds root' = upperBracketRounds root @ rounds"
    using br r by (simp add: upperBracketRounds_append)
  ultimately show ?thesis by blast
qed

lemma createBracketMatch_error:
  "createBracketMatch E v rn rc m bt cf = Inl e \<Longrightarrow> e \<noteq> TypeError"
  by (auto simp: createBracketMatch_def Let_def dest: createMatch_error)

lemma renderBracketRound_error:
  assumes "renderBracketRound E rname rc bt cf v (k, ms) = Inl e" and "ms \<noteq> []"
  shows "e \<noteq> TypeError"
proof -
  from assms have
    "mapE (\<lambda>v1 match. createBracketMatch E v1 k rc match bt cf) v ms = Inl e"
    by (auto simp: renderBracketRound_def split: list.splits sum.splits prod.splits)
  from mapE_error [OF this] show ?thesis
    by (auto dest: createBracketMatch_error)
qed

lemma renderBracket_no_TypeError:
  assumes "mbr \<noteq> []" and "\<forall>r \<in> set mbr. r \<noteq> []"
  shows "renderBracket E v root mbr rname bt cf \<noteq> Inl TypeError"
proof
  assume t: "renderBracket E v root mbr rname bt cf = Inl TypeError"
  from assms obtain first r0 rest where mbr: "mbr = (first # r0) # rest"
    by (cases mbr; cases "hd mbr") auto
  from t have
    "mapE (renderBracketRound E rname (length mbr) bt cf) v (enumerate 1 mbr) = Inl TypeError"
    unfolding mbr renderBracket_def Let_def
    by (auto split: sum.splits prod.splits)
  from mapE_error [OF this] obtain k ms s1 where
    k: "(k, ms) \<in> set (enumerate 1 mbr)" and
    e: "renderBracketRound E rname (length mbr) bt cf s1 (k, ms) = Inl TypeError"
    by auto
  from k have "ms \<in> set mbr" by (auto simp: in_set_enumerate_eq)
  with assms have "ms \<noteq> []" by blast
  from renderBracketRound_error [OF e this] show False by simp
qed

text \<open>The groups of the spec's grouping are not empty, so a stage with a match reads no
  first element of an empty list.\<close>

lemma splitBy_spec_nonempty: "g \<in> set (splitBy_spec xs key) \<Longrightarrow> g \<noteq> []"
  by (induction xs key rule: splitBy_spec.induct) auto

lemma splitBy_spec_groups: "xs \<noteq> [] \<Longrightarrow> splitBy_spec xs key \<noteq> []"
  by (cases xs) auto

lemma renderDoubleElimination_unfold:
  "mbg \<noteq> [] \<Longrightarrow>
   renderDoubleElimination E v root mbg =
     (case renderBracket E v root (splitBy E (hd mbg) round_id) (getWinnerBracketRoundName E)
             winner_bracket (Some (2 < length mbg)) of
        Inl e \<Rightarrow> Inl e
      | Inr (v1, root1) \<Rightarrow>
          (case (if 1 < length mbg
                 then renderBracket E v1 root1 (splitBy E (mbg ! 1) round_id)
                        (getLoserBracketRoundName E) loser_bracket None
                 else Inr (v1, root1)) of
             Inl e \<Rightarrow> Inl e
           | Inr (v2, root2) \<Rightarrow>
               if 2 < length mbg then renderFinal E v2 root2 grand_final (mbg ! 2)
               else Inr (v2, root2)))"
proof (cases mbg)
  case Nil
  then show "mbg \<noteq> [] \<Longrightarrow> ?thesis" by simp
next
  case (Cons g0 rest)
  show ?thesis
    unfolding Cons renderDoubleElimination_def Let_def by simp
qed

lemma elimination_no_TypeError:
  assumes s: "splitBy E = splitBy_spec" and ne: "ms \<noteq> []"
  shows "renderSingleElimination E v root (splitBy E ms group_id) \<noteq> Inl TypeError"
    and "renderDoubleElimination E v root (splitBy E ms group_id) \<noteq> Inl TypeError"
proof -
  define mbg where "mbg = splitBy E ms group_id"
  have g: "\<forall>g \<in> set mbg. g \<noteq> []" and n: "mbg \<noteq> []"
    using ne by (auto simp: mbg_def s splitBy_spec_nonempty splitBy_spec_groups)
  have b: "renderBracket E v1 root1 (splitBy E x round_id) rname bt cf \<noteq> Inl TypeError"
    if "x \<in> set mbg" for v1 root1 x rname bt cf
  proof (rule renderBracket_no_TypeError)
    from that g have "x \<noteq> []" by blast
    then show "splitBy E x round_id \<noteq> []" by (simp add: s splitBy_spec_groups)
    show "\<forall>r \<in> set (splitBy E x round_id). r \<noteq> []"
      by (auto simp: s dest: splitBy_spec_nonempty)
  qed
  have f: "renderFinal E v1 root1 ft (mbg ! k) \<noteq> Inl TypeError" if "k < length mbg"
    for v1 root1 ft k
    using that g by (intro renderFinal_no_TypeError) auto
  from n obtain g0 rest where c: "mbg = g0 # rest" by (cases mbg) auto
  have h: "g0 \<in> set mbg" "1 < length mbg \<Longrightarrow> mbg ! 1 \<in> set mbg" using c by auto
  show "renderSingleElimination E v root (splitBy E ms group_id) \<noteq> Inl TypeError"
    unfolding mbg_def [symmetric]
  proof
    assume "renderSingleElimination E v root mbg = Inl TypeError"
    then consider
      "renderBracket E v root (splitBy E g0 round_id) (getRoundName E) single_bracket None
         = Inl TypeError"
      | v1 root1 where "1 < length mbg"
        "renderFinal E v1 root1 consolation_final (mbg ! 1) = Inl TypeError"
      unfolding c renderSingleElimination_def Let_def
      by (auto split: sum.splits prod.splits if_splits)
    then show False
      using b [OF h(1)] f by cases auto
  qed
  show "renderDoubleElimination E v root (splitBy E ms group_id) \<noteq> Inl TypeError"
    unfolding mbg_def [symmetric]
  proof
    assume "renderDoubleElimination E v root mbg = Inl TypeError"
    then consider
      "renderBracket E v root (splitBy E (hd mbg) round_id) (getWinnerBracketRoundName E)
         winner_bracket (Some (2 < length mbg)) = Inl TypeError"
      | v1 root1 where "1 < length mbg"
        "renderBracket E v1 root1 (splitBy E (mbg ! 1) round_id) (getLoserBracketRoundName E)
           loser_bracket None = Inl TypeError"
      | v2 root2 where "2 < length mbg"
        "renderFinal E v2 root2 grand_final (mbg ! 2) = Inl TypeError"
      unfolding renderDoubleElimination_unfold [OF n]
      by (auto split: sum.splits prod.splits if_splits)
    moreover from n have "hd mbg \<in> set mbg" by simp
    ultimately show False
      using b f h(2) by cases blast+
  qed
qed

text \<open>
  Claim C1, as the code has it. When \<^verbatim>\<open>renderFinal\<close> renders a final group, the number of
  rounds it adds to the upper bracket is the smaller of the display count and the number
  of matches of the group. The display count comes from \<^verbatim>\<open>opponent1\<close> of the first
  match alone: 1 when that opponent is present and its id is \<^verbatim>\<open>null\<close> or its result is
  \<^verbatim>\<open>'win'\<close>, and 2 otherwise.
\<close>

theorem renderFinal_round_count:
  assumes "renderFinal E v root finalType ms = Inr (v', root')"
  shows "\<exists>rounds.
           upperBracketRounds root' = upperBracketRounds root @ rounds \<and>
           length rounds = min (displayCount (hd ms)) (length ms) \<and>
           displayCount (hd ms) =
             (case opponent1 (hd ms) of
                None \<Rightarrow> 2
              | Some winnerWb \<Rightarrow>
                  if id_R winnerWb = None \<or> result winnerWb = Some win then 1 else 2)"
proof -
  from renderFinal_Inr [OF assms] obtain rounds where
    br: "list_ex isBracket root" and
    r: "root' = appendToUpperBracket root rounds" and
    d: "map round_data rounds = map round_id (take (displayCount (hd ms)) ms)"
    by blast
  from d have
    "length (map round_data rounds) = length (map round_id (take (displayCount (hd ms)) ms))"
    by simp
  then have "length rounds = min (displayCount (hd ms)) (length ms)"
    by (simp add: min.commute)
  with br r show ?thesis
    by (auto simp: upperBracketRounds_append displayCount_def)
qed

text \<open>A grand final of two matches whose first opponent lost the first match: both rounds
  are added.\<close>

theorem renderFinal_round_count_witness:
  "\<exists>v' root'.
     renderFinal sampleModules rosterViewer [BracketContainer 0 []] grand_final
       [sampleMatch 1 2 1 (Some (opponent (Some 7) (Some loss))),
        sampleMatch 2 2 2 (Some (opponent (Some 7) None))] = Inr (v', root')
     \<and> length (upperBracketRounds root') = 2"
proof -
  have "\<not> isl (renderFinal sampleModules rosterViewer [BracketContainer 0 []] grand_final
       [sampleMatch 1 2 1 (Some (opponent (Some 7) (Some loss))),
        sampleMatch 2 2 2 (Some (opponent (Some 7) None))])"
    by code_simp
  then obtain v' root' where
    h: "renderFinal sampleModules rosterViewer [BracketContainer 0 []] grand_final
       [sampleMatch 1 2 1 (Some (opponent (Some 7) (Some loss))),
        sampleMatch 2 2 2 (Some (opponent (Some 7) None))] = Inr (v', root')"
    by (metis isl_def old.prod.exhaust sum.collapse(2))
  from renderFinal_round_count [OF h] have "length (upperBracketRounds root') = 2"
    by (auto simp: displayCount_def sampleMatch_def opponent_def)
  with h show ?thesis by blast
qed

text \<open>Claim C1 as the spec states it fails for a final group of one match: the first
  opponent of a consolation final has an id and the result \<^verbatim>\<open>'loss'\<close>, the display count
  is 2, and one round is displayed.\<close>

theorem renderFinal_rounds_counterexample:
  "case renderFinal sampleModules rosterViewer [BracketContainer 0 []] consolation_final
          [sampleMatch 1 1 1 (Some (opponent (Some 7) (Some loss)))] of
     Inl e \<Rightarrow> False
   | Inr (v', root') \<Rightarrow>
       displayCount (sampleMatch 1 1 1 (Some (opponent (Some 7) (Some loss)))) = 2
       \<and> length (upperBracketRounds root') = 1"
  by code_simp

text \<open>
  Claim C10. When \<^verbatim>\<open>renderFinal\<close> renders a final group, the rounds it adds are those of
  the slice \<^verbatim>\<open>matches.slice(0, displayCount)\<close>, in order: round \<open>i + 1\<close> has the round id
  of match \<open>i\<close> and holds one match container, the one \<^verbatim>\<open>createMatch\<close> builds from match
  \<open>i\<close> of the group, with its id and status. So there are never more rounds than
  matches, and exactly one round for a group of one match. For a group with at least one
  match, \<^verbatim>\<open>renderFinal\<close> never reads a match past the end of the list (no \<open>TypeError\<close>).
  The callers pass groups of the grouping of the stage's matches, which by section 4.1 of
  the spec are not empty: with that grouping, an elimination stage that has a match ends
  without a \<open>TypeError\<close>.
\<close>

theorem renderFinal_within_matches:
  "(ms \<noteq> [] \<longrightarrow> renderFinal E v root finalType ms \<noteq> Inl TypeError)
   \<and> (\<forall>v' root'. renderFinal E v root finalType ms = Inr (v', root') \<longrightarrow>
        (\<exists>rounds.
           upperBracketRounds root' = upperBracketRounds root @ rounds \<and>
           map round_data rounds = map round_id (take (displayCount (hd ms)) ms) \<and>
           map (\<lambda>r. map match_data (round_matches r)) rounds
             = map (\<lambda>m. [(id_M m, status m)]) (take (displayCount (hd ms)) ms) \<and>
           (\<forall>i < length rounds. \<exists>v1 v2 mc.
              round_matches (rounds ! i) = [mc] \<and>
              createMatch E v1 (ms ! i) (Some final_group)
                (Some (getFinalConnection finalType (Suc i) (length rounds)))
                (Some (getFinalMatchLabel E finalType (Suc i) (length ms)))
                (getFinalOriginHint E finalType (Suc i)) None
              = Inr (v2, mc)) \<and>
           length rounds \<le> length ms \<and>
           (length ms = 1 \<longrightarrow> length rounds = 1)))
   \<and> (\<forall>g \<in> set (splitBy_spec stageMatches group_id). g \<noteq> [])
   \<and> (splitBy E = splitBy_spec \<and> stageMatches \<noteq> [] \<longrightarrow>
        renderSingleElimination E v root (splitBy E stageMatches group_id) \<noteq> Inl TypeError
        \<and> renderDoubleElimination E v root (splitBy E stageMatches group_id) \<noteq> Inl TypeError)"
proof -
  have rendered: "\<exists>rounds.
           upperBracketRounds root' = upperBracketRounds root @ rounds \<and>
           map round_data rounds = map round_id (take (displayCount (hd ms)) ms) \<and>
           map (\<lambda>r. map match_data (round_matches r)) rounds
             = map (\<lambda>m. [(id_M m, status m)]) (take (displayCount (hd ms)) ms) \<and>
           (\<forall>i < length rounds. \<exists>v1 v2 mc.
              round_matches (rounds ! i) = [mc] \<and>
              createMatch E v1 (ms ! i) (Some final_group)
                (Some (getFinalConnection finalType (Suc i) (length rounds)))
                (Some (getFinalMatchLabel E finalType (Suc i) (length ms)))
                (getFinalOriginHint E finalType (Suc i)) None
              = Inr (v2, mc)) \<and>
           length rounds \<le> length ms \<and>
           (length ms = 1 \<longrightarrow> length rounds = 1)"
    if h: "renderFinal E v root finalType ms = Inr (v', root')" for v' root'
  proof -
    from renderFinal_matches [OF h] obtain rounds where
      u: "upperBracketRounds root' = upperBracketRounds root @ rounds" and
      len: "length rounds = min (displayCount (hd ms)) (length ms)" and
      a: "\<forall>i < length rounds. \<exists>v1 v2 mc.
              round_data (rounds ! i) = round_id (ms ! i) \<and>
              round_matches (rounds ! i) = [mc] \<and>
              createMatch E v1 (ms ! i) (Some final_group)
                (Some (getFinalConnection finalType (Suc i) (length rounds)))
                (Some (getFinalMatchLabel E finalType (Suc i) (length ms)))
                (getFinalOriginHint E finalType (Suc i)) None
              = Inr (v2, mc)"
      by blast
    have d: "map round_data rounds = map round_id (take (displayCount (hd ms)) ms)"
    proof (rule nth_equalityI)
      show "length (map round_data rounds)
              = length (map round_id (take (displayCount (hd ms)) ms))"
        using len by (simp add: min.commute)
    next
      fix i assume "i < length (map round_data rounds)"
      then have i: "i < length rounds" by simp
      with a have "round_data (rounds ! i) = round_id (ms ! i)" by blast
      with i len show "map round_data rounds ! i
                         = map round_id (take (displayCount (hd ms)) ms) ! i"
        by simp
    qed
    have k: "map (\<lambda>r. map match_data (round_matches r)) rounds
             = map (\<lambda>m. [(id_M m, status m)]) (take (displayCount (hd ms)) ms)"
    proof (rule nth_equalityI)
      show "length (map (\<lambda>r. map match_data (round_matches r)) rounds)
              = length (map (\<lambda>m. [(id_M m, status m)]) (take (displayCount (hd ms)) ms))"
        using len by (simp add: min.commute)
    next
      fix i assume "i < length (map (\<lambda>r. map match_data (round_matches r)) rounds)"
      then have i: "i < length rounds" by simp
      with a obtain v1 v2 mc where
        "round_matches (rounds ! i) = [mc]"
        "createMatch E v1 (ms ! i) (Some final_group)
                (Some (getFinalConnection finalType (Suc i) (length rounds)))
                (Some (getFinalMatchLabel E finalType (Suc i) (length ms)))
                (getFinalOriginHint E finalType (Suc i)) None
              = Inr (v2, mc)"
        by blast
      then have "map match_data (round_matches (rounds ! i)) = [(id_M (ms ! i), status (ms ! i))]"
        by (simp add: createMatch_match_data)
      with i len show "map (\<lambda>r. map match_data (round_matches r)) rounds ! i
            = map (\<lambda>m. [(id_M m, status m)]) (take (displayCount (hd ms)) ms) ! i"
        by simp
    qed
    have one: "length ms = 1 \<longrightarrow> length rounds = 1"
      using len displayCount_cases [of "hd ms"] by auto
    from a have a': "\<forall>i < length rounds. \<exists>v1 v2 mc.
              round_matches (rounds ! i) = [mc] \<and>
              createMatch E v1 (ms ! i) (Some final_group)
                (Some (getFinalConnection finalType (Suc i) (length rounds)))
                (Some (getFinalMatchLabel E finalType (Suc i) (length ms)))
                (getFinalOriginHint E finalType (Suc i)) None
              = Inr (v2, mc)"
      by blast
    from len have "length rounds \<le> length ms" by simp
    with u d k a' one show ?thesis by blast
  qed
  have groups: "\<forall>g \<in> set (splitBy_spec stageMatches group_id). g \<noteq> []"
    by (auto dest: splitBy_spec_nonempty)
  from rendered groups renderFinal_no_TypeError [of ms E v root finalType]
    elimination_no_TypeError [of E stageMatches v root]
  show ?thesis by blast
qed

text \<open>A grand final of two matches with display count 2: both matches are displayed, in
  order. Its first match alone as a consolation final: that match is displayed. A
  double-elimination stage of four matches in three groups reads no match out of
  bounds.\<close>

theorem renderFinal_within_matches_witness:
  "finalOfTwo \<noteq> []
   \<and> renderFinal sampleModules rosterViewer [BracketContainer 0 []] grand_final finalOfTwo
       \<noteq> Inl TypeError
   \<and> (\<exists>v' root'.
        renderFinal sampleModules rosterViewer [BracketContainer 0 []] grand_final finalOfTwo
          = Inr (v', root')
        \<and> map round_data (upperBracketRounds root') = [11, 12]
        \<and> map (\<lambda>r. map match_data (round_matches r)) (upperBracketRounds root')
            = [[(1, ''pending'')], [(2, ''pending'')]])
   \<and> (\<exists>v' root'.
        renderFinal sampleModules rosterViewer [BracketContainer 0 []] consolation_final
          (take 1 finalOfTwo) = Inr (v', root')
        \<and> map (\<lambda>r. map match_data (round_matches r)) (upperBracketRounds root')
            = [[(1, ''pending'')]])
   \<and> renderDoubleElimination sampleModules rosterViewer []
        (splitBy sampleModules (concat doubleGroups) group_id) \<noteq> Inl TypeError"
proof -
  have ne: "finalOfTwo \<noteq> []" by (simp add: finalOfTwo_def)
  have dc: "displayCount (hd finalOfTwo) = 2"
    by (simp add: finalOfTwo_def displayCount_def sampleMatch_def opponent_def)
  have tk: "take 2 finalOfTwo = finalOfTwo" by (simp add: finalOfTwo_def)
  note T = renderFinal_within_matches [of finalOfTwo sampleModules rosterViewer
      "[BracketContainer 0 []]" grand_final "concat doubleGroups"]
  from T ne have nt:
    "renderFinal sampleModules rosterViewer [BracketContainer 0 []] grand_final finalOfTwo
       \<noteq> Inl TypeError"
    by blast
  have "\<not> isl (renderFinal sampleModules rosterViewer [BracketContainer 0 []] grand_final
                 finalOfTwo)"
    by code_simp
  then obtain v' root' where
    h: "renderFinal sampleModules rosterViewer [BracketContainer 0 []] grand_final finalOfTwo
          = Inr (v', root')"
    by (metis old.prod.exhaust sum.collapse(2))
  from T h obtain rounds where
    "upperBracketRounds root' = upperBracketRounds [BracketContainer 0 []] @ rounds"
    "map round_data rounds = map round_id (take (displayCount (hd finalOfTwo)) finalOfTwo)"
    "map (\<lambda>r. map match_data (round_matches r)) rounds
       = map (\<lambda>m. [(id_M m, status m)]) (take (displayCount (hd finalOfTwo)) finalOfTwo)"
    by blast
  then have two: "map round_data (upperBracketRounds root') = [11, 12]
        \<and> map (\<lambda>r. map match_data (round_matches r)) (upperBracketRounds root')
            = [[(1, ''pending'')], [(2, ''pending'')]]"
    by (simp add: dc tk) (simp add: finalOfTwo_def sampleMatch_def)
  have "\<not> isl (renderFinal sampleModules rosterViewer [BracketContainer 0 []] consolation_final
                 (take 1 finalOfTwo))"
    by code_simp
  then obtain v1 root1 where
    h1: "renderFinal sampleModules rosterViewer [BracketContainer 0 []] consolation_final
           (take 1 finalOfTwo) = Inr (v1, root1)"
    by (metis old.prod.exhaust sum.collapse(2))
  from renderFinal_within_matches [of "take 1 finalOfTwo" sampleModules rosterViewer
      "[BracketContainer 0 []]" consolation_final "concat doubleGroups"] h1
  obtain rounds1 where
    "upperBracketRounds root1 = upperBracketRounds [BracketContainer 0 []] @ rounds1"
    "map (\<lambda>r. map match_data (round_matches r)) rounds1
       = map (\<lambda>m. [(id_M m, status m)])
           (take (displayCount (hd (take 1 finalOfTwo))) (take 1 finalOfTwo))"
    by blast
  then have single: "map (\<lambda>r. map match_data (round_matches r)) (upperBracketRounds root1)
            = [[(1, ''pending'')]]"
    by (simp add: finalOfTwo_def sampleMatch_def displayCount_def opponent_def)
  have sp: "splitBy sampleModules = splitBy_spec" by (simp add: sampleModules_def)
  have st: "concat doubleGroups \<noteq> []" by (simp add: doubleGroups_def)
  from renderFinal_within_matches [of finalOfTwo sampleModules rosterViewer "[]" grand_final
      "concat doubleGroups"] sp st
  have caller:
    "renderDoubleElimination sampleModules rosterViewer []
        (splitBy sampleModules (concat doubleGroups) group_id) \<noteq> Inl TypeError"
    by blast
  from h two have e2: "\<exists>v' root'.
        renderFinal sampleModules rosterViewer [BracketContainer 0 []] grand_final finalOfTwo
          = Inr (v', root')
        \<and> map round_data (upperBracketRounds root') = [11, 12]
        \<and> map (\<lambda>r. map match_data (round_matches r)) (upperBracketRounds root')
            = [[(1, ''pending'')], [(2, ''pending'')]]"
    by (intro exI [of _ v'] exI [of _ root']) simp
  from h1 single have e1: "\<exists>v' root'.
        renderFinal sampleModules rosterViewer [BracketContainer 0 []] consolation_final
          (take 1 finalOfTwo) = Inr (v', root')
        \<and> map (\<lambda>r. map match_data (round_matches r)) (upperBracketRounds root')
            = [[(1, ''pending'')]]"
    by (intro exI [of _ v1] exI [of _ root1]) simp
  show ?thesis
    by (intro conjI) (rule ne, rule nt, rule e2, rule e1, rule caller)
qed

section \<open>Hover highlighting and the lookup of participants\<close>

lemma setupMouseHover_config:
  "setupMouseHover v pid el = Inr v' \<Longrightarrow> config v' = config v"
  by (auto simp: setupMouseHover_def split: if_splits option.splits)

lemma createParticipant_config:
  "createParticipant E v p oh loc rn = Inr (v', c) \<Longrightarrow> config v' = config v"
  by (auto simp: createParticipant_def Let_def dest: setupMouseHover_config
      split: option.splits sum.splits)

lemma renderSetup_refs_roster:
  "p \<in> set (participants_D data) \<Longrightarrow> participantRefs (renderSetup v data cfg) (id_P p) = Some []"
proof -
  have "\<And>refs. p \<in> set ps \<Longrightarrow>
      foldl (\<lambda>refs participant. refs(id_P participant \<mapsto> [])) refs ps (id_P p) = Some []" for ps
    by (induction ps rule: rev_induct) auto
  then show "p \<in> set (participants_D data) \<Longrightarrow> ?thesis"
    by (simp add: renderSetup_def)
qed

lemma renderSetup_refs_other:
  "i \<notin> id_P ` set (participants_D data) \<Longrightarrow>
     participantRefs (renderSetup v data cfg) i = participantRefs v i"
proof -
  have "\<And>refs. i \<notin> id_P ` set ps \<Longrightarrow>
      foldl (\<lambda>refs participant. refs(id_P participant \<mapsto> [])) refs ps i = refs i" for ps
    by (induction ps rule: rev_induct) auto
  then show "i \<notin> id_P ` set (participants_D data) \<Longrightarrow> ?thesis"
    by (simp add: renderSetup_def)
qed

text \<open>
  Claim C2, as the code has it. When the lookup of an opponent in the participant list
  fails, \<^verbatim>\<open>createParticipant\<close> does not throw if the id of the opponent is \<^verbatim>\<open>null\<close> or
  hover highlighting is off: the viewer is unchanged, no name is resolved, and the name
  container shows the phrase \<^verbatim>\<open>originHint(position)\<close> when the round has an origin hint,
  the opponent has a position and the slot-origin options allow it. With hover
  highlighting on, an id that has no entry in the index makes \<^verbatim>\<open>createParticipant\<close>
  throw.
\<close>

theorem createParticipant_lookup_failure:
  assumes "findParticipant v (id_R p) = None"
  shows "(id_R p = None \<or> \<not> highlightParticipantOnHover (config v) \<longrightarrow>
          (\<exists>c. createParticipant E v (Some p) originHint matchLocation roundNumber = Inr (v, c)
              \<and> innerText (name c) = None \<and> title c = None \<and> origin (name c) = None
              \<and> hint (name c) =
                  (case originHint of
                     None \<Rightarrow> None
                   | Some h \<Rightarrow>
                       (case position p of
                          None \<Rightarrow> None
                        | Some pos \<Rightarrow>
                            if showSlotsOrigin (config v)
                               \<and> (showLowerBracketSlotsOrigin (config v)
                                    \<or> matchLocation \<noteq> Some loser_bracket)
                            then Some (h pos) else None))))
       \<and> (\<forall>pid. id_R p = Some pid \<and> highlightParticipantOnHover (config v)
               \<and> participantRefs v pid = None \<longrightarrow>
            createParticipant E v (Some p) originHint matchLocation roundNumber =
              Inl (Error (''The participant (id: '' @ show_int pid
                            @ '') does not exist in the participants table.'')))"
  using assms
  by (auto simp: createParticipant_def renderParticipant_def renderHint_def newContainers_def
      setupMouseHover_def Let_def split: option.splits)

text \<open>An opponent that is not known yet, in round 2 of a bracket: the hint is shown.\<close>

theorem createParticipant_lookup_failure_witness:
  "findParticipant rosterViewer (id_R (opponent None None)) = None
   \<and> (\<exists>c. createParticipant sampleModules rosterViewer (Some (opponent None None))
             (Some (\<lambda>pos. ''Winner of match '' @ show_int pos)) (Some single_bracket) (Some 2)
           = Inr (rosterViewer, c)
         \<and> innerText (name c) = None
         \<and> hint (name c) = Some ''Winner of match 1'')"
proof -
  have f: "findParticipant rosterViewer (id_R (opponent None None)) = None"
    by (simp add: findParticipant_def opponent_def)
  have s: "show_int 1 = ''1''" by code_simp
  have c: "showSlotsOrigin (config rosterViewer) \<and> showLowerBracketSlotsOrigin (config rosterViewer)"
    by (simp add: rosterViewer_def renderSetup_def makeConfig_def)
  from createParticipant_lookup_failure [OF f, of sampleModules
      "Some (\<lambda>pos. ''Winner of match '' @ show_int pos)" "Some single_bracket" "Some 2"] c
  have "\<exists>c. createParticipant sampleModules rosterViewer (Some (opponent None None))
             (Some (\<lambda>pos. ''Winner of match '' @ show_int pos)) (Some single_bracket) (Some 2)
           = Inr (rosterViewer, c)
         \<and> innerText (name c) = None
         \<and> hint (name c) = Some ''Winner of match 1''"
    by (auto simp: opponent_def s)
  with f show ?thesis by blast
qed

text \<open>Claim C2 as the spec states it fails: a match names participant 7, the roster is
  empty, and \<^verbatim>\<open>render\<close> without options throws.\<close>

theorem undeclared_participant_counterexample:
  "case render sampleModules newBracketsViewer undeclaredData None of
     Inl e \<Rightarrow> e = Error ''The participant (id: 7) does not exist in the participants table.''
   | Inr r \<Rightarrow> False"
  by code_simp

text \<open>
  Claim C6, as the code has it. \<^verbatim>\<open>setupMouseHover\<close> throws, with a message that contains
  the id, when hover highlighting is on and the index has no entry for the id; an id that
  is not in the roster has no entry during the first \<^verbatim>\<open>render\<close> of a viewer, and the
  message determines the id. When hover highlighting is off, nothing is thrown and nothing
  is registered.
\<close>

theorem setupMouseHover_undeclared:
  "(highlightParticipantOnHover (config v) \<and> participantRefs v pid = None \<longrightarrow>
      setupMouseHover v pid element =
        Inl (Error (''The participant (id: '' @ show_int pid
                      @ '') does not exist in the participants table.'')))
   \<and> (\<forall>other.
        ''The participant (id: '' @ show_int pid
            @ '') does not exist in the participants table.''
        = ''The participant (id: '' @ show_int other
            @ '') does not exist in the participants table.'' \<longrightarrow> other = pid)
   \<and> (\<not> highlightParticipantOnHover (config v) \<longrightarrow> setupMouseHover v pid element = Inr v)
   \<and> (pid \<notin> id_P ` set (participants_D data) \<longrightarrow>
        participantRefs (renderSetup newBracketsViewer data cfg) pid = None)"
  by (auto simp: setupMouseHover_def renderSetup_refs_other newBracketsViewer_def
      dest: show_int_inj)

theorem setupMouseHover_undeclared_witness:
  "setupMouseHover (renderSetup newBracketsViewer otherRoster None) 7
     (CellElement (CellText ''Ann''))
   = Inl (Error ''The participant (id: 7) does not exist in the participants table.'')
   \<and> setupMouseHover (renderSetup newBracketsViewer otherRoster (Some hoverOff)) 7
       (CellElement (CellText ''Ann''))
     = Inr (renderSetup newBracketsViewer otherRoster (Some hoverOff))"
proof -
  have n: "(7::int) \<notin> id_P ` set (participants_D otherRoster)"
    by (simp add: otherRoster_def)
  have s: "show_int 7 = ''7''" by code_simp
  have on: "highlightParticipantOnHover (config (renderSetup newBracketsViewer otherRoster None))"
    by (simp add: renderSetup_def makeConfig_def)
  have off: "\<not> highlightParticipantOnHover
                (config (renderSetup newBracketsViewer otherRoster (Some hoverOff)))"
    by (simp add: renderSetup_def makeConfig_def hoverOff_def)
  from setupMouseHover_undeclared [of "renderSetup newBracketsViewer otherRoster None" 7
      "CellElement (CellText ''Ann'')" otherRoster None] n on
  have a: "setupMouseHover (renderSetup newBracketsViewer otherRoster None) 7
     (CellElement (CellText ''Ann''))
   = Inl (Error ''The participant (id: 7) does not exist in the participants table.'')"
    by (simp add: s)
  from setupMouseHover_undeclared [of "renderSetup newBracketsViewer otherRoster (Some hoverOff)" 7
      "CellElement (CellText ''Ann'')" otherRoster None] off
  have b: "setupMouseHover (renderSetup newBracketsViewer otherRoster (Some hoverOff)) 7
       (CellElement (CellText ''Ann''))
     = Inr (renderSetup newBracketsViewer otherRoster (Some hoverOff))"
    by simp
  from a b show ?thesis by simp
qed

text \<open>Claim C6 as the spec states it fails. With hover highlighting off, participant 7 is
  not in the roster and neither \<^verbatim>\<open>setupMouseHover\<close> nor \<^verbatim>\<open>render\<close> throws. With hover
  highlighting on, after a first \<^verbatim>\<open>render\<close> whose roster declared participant 7, a
  second \<^verbatim>\<open>render\<close> whose roster is empty and whose match names participant 7 does not
  throw either.\<close>

theorem hover_setup_counterexample:
  "findParticipant (renderSetup newBracketsViewer undeclaredData (Some hoverOff)) (Some 7) = None
   \<and> \<not> isl (setupMouseHover (renderSetup newBracketsViewer undeclaredData (Some hoverOff)) 7
               (CellElement (CellText ''Ann'')))
   \<and> \<not> isl (render sampleModules newBracketsViewer undeclaredData (Some hoverOff))
   \<and> (case render sampleModules newBracketsViewer declaredData None of
         Inl e \<Rightarrow> False
       | Inr (v1, root1) \<Rightarrow> \<not> isl (render sampleModules v1 undeclaredData None))"
  by code_simp

section \<open>What a call of render leaves in the viewer\<close>

lemma mapE_preserves:
  assumes "\<And>s x s' y. f s x = Inr (s', y) \<Longrightarrow> g s' = g s"
  shows "mapE f s xs = Inr (s', ys) \<Longrightarrow> g s' = g s"
proof (induction xs arbitrary: s ys)
  case Nil
  then show ?case by simp
next
  case (Cons x xs)
  from Cons.prems obtain s1 y ys' where
    a: "f s x = Inr (s1, y)" and b: "mapE f s1 xs = Inr (s', ys')"
    by (auto split: sum.splits prod.splits)
  from Cons.IH [OF b] assms [OF a] show ?case by simp
qed

lemma forEachE_preserves:
  assumes "\<And>s x s'. f s x = Inr s' \<Longrightarrow> g s' = g s"
  shows "forEachE f s xs = Inr s' \<Longrightarrow> g s' = g s"
proof (induction xs arbitrary: s)
  case Nil
  then show ?case by simp
next
  case (Cons x xs)
  from Cons.prems obtain s1 where
    a: "f s x = Inr s1" and b: "forEachE f s1 xs = Inr s'"
    by (auto split: sum.splits)
  from Cons.IH [OF b] assms [OF a] show ?case by simp
qed

lemma setupMouseHover_settings:
  "setupMouseHover v pid el = Inr v' \<Longrightarrow> settingsOf v' = settingsOf v"
  by (auto simp: setupMouseHover_def settingsOf_def split: if_splits option.splits)

lemma createParticipant_settings:
  "createParticipant E v p oh loc rn = Inr (v', c) \<Longrightarrow> settingsOf v' = settingsOf v"
  by (auto simp: createParticipant_def Let_def dest: setupMouseHover_settings
      split: option.splits sum.splits)

lemma createMatch_settings:
  "createMatch E v m loc conn l oh rn = Inr (v', mc) \<Longrightarrow> settingsOf v' = settingsOf v"
  by (auto simp: createMatch_def dest!: createParticipant_settings
      split: sum.splits prod.splits)

lemma createBracketMatch_settings:
  "createBracketMatch E v rn rc m bt cf = Inr (v', mc) \<Longrightarrow> settingsOf v' = settingsOf v"
  by (auto simp: createBracketMatch_def Let_def settingsOf_def
      dest!: createMatch_settings [unfolded settingsOf_def])

lemma renderBracketRound_settings:
  "renderBracketRound E rname rc bt cf v numbered = Inr (v', r) \<Longrightarrow> settingsOf v' = settingsOf v"
  by (auto simp: renderBracketRound_def split: prod.splits list.splits sum.splits
      dest!: mapE_preserves [where g = settingsOf, rotated] createBracketMatch_settings)

lemma renderBracket_settings:
  "renderBracket E v root mbr rname bt cf = Inr (v', root') \<Longrightarrow> settingsOf v' = settingsOf v"
  by (auto simp: renderBracket_def Let_def split: prod.splits list.splits sum.splits
      dest!: mapE_preserves [where g = settingsOf, rotated] renderBracketRound_settings)

lemma renderFinalRound_settings:
  "renderFinalRound E ft fm rc v i = Inr (v', r) \<Longrightarrow> settingsOf v' = settingsOf v"
  by (auto simp: renderFinalRound_def createFinalMatch_def Let_def
      split: sum.splits prod.splits dest!: createMatch_settings)

lemma renderFinal_settings:
  "renderFinal E v root ft ms = Inr (v', root') \<Longrightarrow> settingsOf v' = settingsOf v"
  by (auto simp: renderFinal_def Let_def split: if_splits prod.splits list.splits sum.splits
      dest!: mapE_preserves [where g = settingsOf, rotated] renderFinalRound_settings)

lemma createRankingRow_settings:
  "createRankingRow v item = Inr (v', cells) \<Longrightarrow> settingsOf v' = settingsOf v"
  unfolding createRankingRow_def
  by (erule mapE_preserves [rotated])
     (auto split: option.splits sum.splits if_splits dest: setupMouseHover_settings)

lemma createRanking_settings:
  "createRanking E v ms = Inr (v', t) \<Longrightarrow> settingsOf v' = settingsOf v"
  by (auto simp: createRanking_def Let_def split: sum.splits prod.splits
      dest!: mapE_preserves [where g = settingsOf, rotated] createRankingRow_settings)

lemma renderRoundRobin_settings:
  assumes "renderRoundRobin E v root stage mbg = Inr (v', root')"
  shows "settingsOf v' = settingsOf v"
proof -
  have round: "settingsOf v4 = settingsOf v2"
    if "(case numbered of
          (roundNumber, roundMatches) \<Rightarrow>
            (case roundMatches of
               [] \<Rightarrow> Inl TypeError
             | r0 # _ \<Rightarrow>
                 (case mapE (\<lambda>v3 match. createMatch E v3 match None None None None None)
                         v2 roundMatches of
                    Inl e \<Rightarrow> Inl e
                  | Inr (v4, rendered) \<Rightarrow>
                      Inr (v4,
                        \<lparr>round_data = round_id r0,
                         round_name = getRoundName E roundNumber 0,
                         round_matches = rendered\<rparr>)))) = Inr (v4, r)"
    for v2 v4 numbered r
    using that
    by (auto split: prod.splits list.splits sum.splits
        dest!: mapE_preserves [where g = settingsOf, rotated] createMatch_settings)
  have group: "settingsOf v6 = settingsOf v1"
    if "(case numbered of
          (groupNumber, groupMatches) \<Rightarrow>
            (case groupMatches of
               [] \<Rightarrow> Inl TypeError
             | g0 # _ \<Rightarrow>
                 (case mapE
                         (\<lambda>v2 (roundNumber, roundMatches).
                            (case roundMatches of
                               [] \<Rightarrow> Inl TypeError
                             | r0 # _ \<Rightarrow>
                                 (case mapE
                                         (\<lambda>v3 match.
                                            createMatch E v3 match None None None None None)
                                         v2 roundMatches of
                                    Inl e \<Rightarrow> Inl e
                                  | Inr (v4, rendered) \<Rightarrow>
                                      Inr (v4,
                                        \<lparr>round_data = round_id r0,
                                         round_name = getRoundName E roundNumber 0,
                                         round_matches = rendered\<rparr>))))
                         v1 (enumerate 1 (splitBy E groupMatches round_id)) of
                    Inl e \<Rightarrow> Inl e
                  | Inr (v5, rounds) \<Rightarrow>
                      (case createRanking E v5 groupMatches of
                         Inl e \<Rightarrow> Inl e
                       | Inr (v6, table) \<Rightarrow>
                           Inr (v6,
                             \<lparr>group_data = group_id g0,
                              group_name = getGroupName E groupNumber,
                              group_rounds = rounds,
                              ranking = table\<rparr>))))) = Inr (v6, g)"
    for v1 v6 numbered g
  proof -
    from that obtain v5 rounds groupMatches where
      a: "mapE
            (\<lambda>v2 (roundNumber, roundMatches).
               (case roundMatches of
                  [] \<Rightarrow> Inl TypeError
                | r0 # _ \<Rightarrow>
                    (case mapE
                            (\<lambda>v3 match. createMatch E v3 match None None None None None)
                            v2 roundMatches of
                       Inl e \<Rightarrow> Inl e
                     | Inr (v4, rendered) \<Rightarrow>
                         Inr (v4,
                           \<lparr>round_data = round_id r0,
                            round_name = getRoundName E roundNumber 0,
                            round_matches = rendered\<rparr>))))
            v1 (enumerate 1 (splitBy E groupMatches round_id)) = Inr (v5, rounds)"
      and b: "\<exists>t. createRanking E v5 groupMatches = Inr (v6, t)"
      by (auto split: prod.splits list.splits sum.splits)
    have "settingsOf v5 = settingsOf v1"
      by (rule mapE_preserves [OF _ a]) (rule round, simp add: case_prod_beta)
    with b show ?thesis by (auto dest: createRanking_settings)
  qed
  from assms obtain groups where
    m: "mapE
             (\<lambda>v1 (groupNumber, groupMatches).
                (case groupMatches of
                   [] \<Rightarrow> Inl TypeError
                 | g0 # _ \<Rightarrow>
                     (case mapE
                             (\<lambda>v2 (roundNumber, roundMatches).
                                (case roundMatches of
                                   [] \<Rightarrow> Inl TypeError
                                 | r0 # _ \<Rightarrow>
                                     (case mapE
                                             (\<lambda>v3 match.
                                                createMatch E v3 match None None None None None)
                                             v2 roundMatches of
                                        Inl e \<Rightarrow> Inl e
                                      | Inr (v4, rendered) \<Rightarrow>
                                          Inr (v4,
                                            \<lparr>round_data = round_id r0,
                                             round_name = getRoundName E roundNumber 0,
                                             round_matches = rendered\<rparr>))))
                             v1 (enumerate 1 (splitBy E groupMatches round_id)) of
                        Inl e \<Rightarrow> Inl e
                      | Inr (v5, rounds) \<Rightarrow>
                          (case createRanking E v5 groupMatches of
                             Inl e \<Rightarrow> Inl e
                           | Inr (v6, table) \<Rightarrow>
                               Inr (v6,
                                 \<lparr>group_data = group_id g0,
                                  group_name = getGroupName E groupNumber,
                                  group_rounds = rounds,
                                  ranking = table\<rparr>)))))
             v (enumerate 1 mbg) = Inr (v', groups)"
    by (auto simp: renderRoundRobin_def split: sum.splits prod.splits)
  show ?thesis
    by (rule mapE_preserves [OF _ m]) (rule group, simp add: case_prod_beta)
qed


lemma renderSingleElimination_settings:
  "renderSingleElimination E v root mbg = Inr (v', root') \<Longrightarrow> settingsOf v' = settingsOf v"
  by (auto simp: renderSingleElimination_def Let_def
      split: list.splits sum.splits prod.splits if_splits
      dest!: renderBracket_settings renderFinal_settings)

lemma renderDoubleElimination_settings:
  "renderDoubleElimination E v root mbg = Inr (v', root') \<Longrightarrow> settingsOf v' = settingsOf v"
  by (auto simp: renderDoubleElimination_def Let_def
      split: list.splits sum.splits prod.splits if_splits
      dest!: renderBracket_settings renderFinal_settings)

lemma renderStage_settings:
  "renderStage E v root data = Inr (v', root') \<Longrightarrow> settingsOf v' = settingsOf v"
proof -
  have s: "settingsOf (v\<lparr>skipFirstRound := b\<rparr>) = settingsOf v" for b
    by (simp add: settingsOf_def)
  show "renderStage E v root data = Inr (v', root') \<Longrightarrow> ?thesis"
    by (auto simp: renderStage_def renderElimination_def Let_def
        split: list.splits if_splits
        dest!: renderRoundRobin_settings renderSingleElimination_settings
          renderDoubleElimination_settings simp: s)
qed

text \<open>What a call of \<^verbatim>\<open>render\<close> that returns leaves in the viewer: the configuration and
  the participants of the call, and the images the viewer had.\<close>

lemma render_settings:
  assumes "render E v data cfg = Inr (v', root)"
  shows "settingsOf v' = (makeConfig cfg, participants_D data, participantImages v)"
proof -
  have "settingsOf (fst (v', root)) = settingsOf (fst (renderSetup v data cfg, []::Node list))"
    by (rule forEachE_preserves [OF _ assms [unfolded render_def]])
       (auto dest: renderStage_settings)
  then show ?thesis by (simp add: settingsOf_def renderSetup_def)
qed

section \<open>The index across calls of render\<close>

text \<open>
  Claim C3, as the code has it. The start of \<^verbatim>\<open>render\<close> empties the index entry of every
  participant of the roster it is given. Besides the index, the viewer keeps the images
  set by \<^verbatim>\<open>setParticipantImages\<close>, at the start of the call and when the call returns;
  the configuration and the participants are replaced by those of the call.
\<close>

theorem renderSetup_resets_roster:
  "(\<forall>p \<in> set (participants_D data).
      participantRefs (renderSetup v data cfg) (id_P p) = Some [])
   \<and> participantImages (renderSetup v data cfg) = participantImages v
   \<and> participantImages (setParticipantImages v images) = images
   \<and> config (renderSetup v data cfg) = makeConfig cfg
   \<and> participants (renderSetup v data cfg) = participants_D data
   \<and> (\<forall>v' root. render E v data cfg = Inr (v', root) \<longrightarrow>
        participantImages v' = participantImages v
        \<and> config v' = makeConfig cfg
        \<and> participants v' = participants_D data)"
proof -
  have "participantImages v' = participantImages v \<and> config v' = makeConfig cfg
        \<and> participants v' = participants_D data"
    if "render E v data cfg = Inr (v', root)" for v' root
    using render_settings [OF that] by (simp add: settingsOf_def)
  moreover have "\<forall>p \<in> set (participants_D data).
      participantRefs (renderSetup v data cfg) (id_P p) = Some []"
    by (simp add: renderSetup_refs_roster)
  moreover have "participantImages (renderSetup v data cfg) = participantImages v
   \<and> participantImages (setParticipantImages v images) = images
   \<and> config (renderSetup v data cfg) = makeConfig cfg
   \<and> participants (renderSetup v data cfg) = participants_D data"
    by (simp add: renderSetup_def setParticipantImages_def)
  ultimately show ?thesis by blast
qed

text \<open>A second call with the roster of participant 8, on a viewer that rendered
  participant 7 before and holds an image.\<close>

theorem renderSetup_resets_roster_witness:
  "participantRefs
     (renderSetup (setParticipantImages rosterViewer [\<lparr>participantId = 7, imageUrl = ''a.png''\<rparr>])
        otherRoster None) 8 = Some []
   \<and> participantImages
       (renderSetup (setParticipantImages rosterViewer [\<lparr>participantId = 7, imageUrl = ''a.png''\<rparr>])
          otherRoster None) = [\<lparr>participantId = 7, imageUrl = ''a.png''\<rparr>]"
proof -
  have m: "\<lparr>id_P = 8, name_P = ''Bob''\<rparr> \<in> set (participants_D otherRoster)"
    by (simp add: otherRoster_def)
  from renderSetup_resets_roster [where data = otherRoster
      and v = "setParticipantImages rosterViewer [\<lparr>participantId = 7, imageUrl = ''a.png''\<rparr>]"
      and cfg = None] m
    renderSetup_resets_roster [where v = rosterViewer
      and images = "[\<lparr>participantId = 7, imageUrl = ''a.png''\<rparr>]"]
  have "participantRefs
     (renderSetup (setParticipantImages rosterViewer [\<lparr>participantId = 7, imageUrl = ''a.png''\<rparr>])
        otherRoster None) (id_P \<lparr>id_P = 8, name_P = ''Bob''\<rparr>) = Some []"
    and "participantImages
       (renderSetup (setParticipantImages rosterViewer [\<lparr>participantId = 7, imageUrl = ''a.png''\<rparr>])
          otherRoster None)
         = participantImages
             (setParticipantImages rosterViewer [\<lparr>participantId = 7, imageUrl = ''a.png''\<rparr>])"
    and "participantImages
           (setParticipantImages rosterViewer [\<lparr>participantId = 7, imageUrl = ''a.png''\<rparr>])
         = [\<lparr>participantId = 7, imageUrl = ''a.png''\<rparr>]"
    by blast+
  then show ?thesis by simp
qed

text \<open>Claim C3 as the spec states it fails. A first \<^verbatim>\<open>render\<close> registers the element of
  participant 7. A second \<^verbatim>\<open>render\<close>, whose roster is participant 8 alone and which has
  no match, leaves that element in the index: after its start, and after its end, the
  entry of participant 7 holds one element, and participant 7 is not a participant of
  the second call.\<close>

theorem stale_index_counterexample:
  "case render sampleModules newBracketsViewer declaredData None of
     Inl e \<Rightarrow> False
   | Inr (v1, root1) \<Rightarrow>
       map_option length (participantRefs (renderSetup v1 otherRoster None) 7) = Some 1
       \<and> (case render sampleModules v1 otherRoster None of
            Inl e \<Rightarrow> False
          | Inr (v2, root2) \<Rightarrow>
              find (\<lambda>p. id_P p = 7) (participants v2) = None
              \<and> map_option length (participantRefs v2 7) = Some 1)"
  by code_simp

section \<open>Connections\<close>

lemma createBracketMatch_connection:
  "createBracketMatch E v rn rc m bt cf = Inr (v', mc) \<Longrightarrow>
     connection_M mc = Some (getBracketConnection rn rc bt cf)"
  by (auto simp: createBracketMatch_def Let_def dest: createMatch_connection)

lemma renderBracketRound_Inr:
  assumes "renderBracketRound E rname rc bt cf v (k, ms) = Inr (v', r)"
  shows "round_matches r \<noteq> [] \<and>
         (\<forall>mc \<in> set (round_matches r). connection_M mc = Some (getBracketConnection k rc bt cf))"
proof -
  from assms obtain rendered where ne: "ms \<noteq> []"
    and m: "mapE (\<lambda>v1 match. createBracketMatch E v1 k rc match bt cf) v ms = Inr (v', rendered)"
    and r: "round_matches r = rendered"
    by (auto simp: renderBracketRound_def split: list.splits sum.splits prod.splits)
  from mapE_all2 [OF m] have
    a: "list_all2 (\<lambda>x mc. connection_M mc = Some (getBracketConnection k rc bt cf)) ms rendered"
    by (rule list_all2_mono) (auto dest: createBracketMatch_connection)
  from a ne have "rendered \<noteq> []" by (auto simp: list_all2_Nil2)
  moreover from a have
    "\<forall>mc \<in> set rendered. connection_M mc = Some (getBracketConnection k rc bt cf)"
    by (auto simp: list_all2_conv_all_nth in_set_conv_nth)
  ultimately show ?thesis using r by simp
qed

text \<open>A bracket that is rendered is one new bracket container at the end of the root, with
  one round per round of the input; the matches of its round \<open>k\<close> carry the connection
  \<^verbatim>\<open>dom.getBracketConnection(k, roundCount, bracketType, connectFinal)\<close>.\<close>

lemma renderBracket_Inr:
  assumes "renderBracket E v root mbr rname bt cf = Inr (v', root')"
  shows "\<exists>g rounds. root' = root @ [BracketContainer g rounds] \<and> rounds \<noteq> [] \<and>
           length rounds = length mbr \<and>
           (\<forall>k < length rounds. round_matches (rounds ! k) \<noteq> [] \<and>
              (\<forall>mc \<in> set (round_matches (rounds ! k)).
                 connection_M mc = Some (getBracketConnection (Suc k) (length mbr) bt cf)))"
proof -
  from assms obtain g rounds where ne: "mbr \<noteq> []"
    and m: "mapE (renderBracketRound E rname (length mbr) bt cf) v (enumerate 1 mbr)
              = Inr (v', rounds)"
    and r: "root' = root @ [BracketContainer g rounds]"
    by (auto simp: renderBracket_def Let_def split: list.splits sum.splits prod.splits)
  from mapE_all2 [OF m] have
    a: "list_all2 (\<lambda>x y. round_matches y \<noteq> [] \<and>
          (\<forall>mc \<in> set (round_matches y).
             connection_M mc = Some (getBracketConnection (fst x) (length mbr) bt cf)))
          (enumerate 1 mbr) rounds"
    by (rule list_all2_mono) (auto dest: renderBracketRound_Inr)
  then have len: "length rounds = length mbr"
    by (auto dest: list_all2_lengthD)
  have "\<forall>k < length rounds. round_matches (rounds ! k) \<noteq> [] \<and>
              (\<forall>mc \<in> set (round_matches (rounds ! k)).
                 connection_M mc = Some (getBracketConnection (Suc k) (length mbr) bt cf))"
  proof (intro allI impI)
    fix k assume k: "k < length rounds"
    with a len have "round_matches (rounds ! k) \<noteq> [] \<and>
          (\<forall>mc \<in> set (round_matches (rounds ! k)).
             connection_M mc
               = Some (getBracketConnection (fst (enumerate 1 mbr ! k)) (length mbr) bt cf))"
      by (simp add: list_all2_conv_all_nth)
    with k len show "round_matches (rounds ! k) \<noteq> [] \<and>
              (\<forall>mc \<in> set (round_matches (rounds ! k)).
                 connection_M mc = Some (getBracketConnection (Suc k) (length mbr) bt cf))"
      by (simp add: nth_enumerate_eq)
  qed
  with r ne len show ?thesis by auto
qed

lemma roundConnections_append:
  "roundConnections (xs @ ys) = roundConnections xs @ roundConnections ys"
  by (simp add: roundConnections_def)

lemma connections_snoc:
  "connections (root @ [n]) = connections root @ nodeConnections n"
  by (simp add: connections_def)

lemma connections_appendToUpperBracket:
  "set (connections (appendToUpperBracket root new))
     \<subseteq> set (connections root) \<union> set (roundConnections new)"
  by (induction root new rule: appendToUpperBracket.induct)
     (auto simp: connections_def roundConnections_append)

lemma connections_appendToUpperBracket_mono:
  "set (connections root) \<subseteq> set (connections (appendToUpperBracket root new))"
  by (induction root new rule: appendToUpperBracket.induct)
     (auto simp: connections_def roundConnections_append)

lemma renderBracket_connections:
  assumes "renderBracket E v root mbr rname bt cf = Inr (v', root')"
  shows "(\<forall>c \<in> set (connections root').
            c \<in> set (connections root) \<or> (\<exists>k n. c = Some (getBracketConnection k n bt cf)))
         \<and> set (connections root) \<subseteq> set (connections root')
         \<and> (\<exists>n. Some (getBracketConnection 1 n bt cf) \<in> set (connections root'))"
proof -
  from renderBracket_Inr [OF assms] obtain g rounds where
    r: "root' = root @ [BracketContainer g rounds]" and ne: "rounds \<noteq> []" and
    a: "\<forall>k < length rounds. round_matches (rounds ! k) \<noteq> [] \<and>
              (\<forall>mc \<in> set (round_matches (rounds ! k)).
                 connection_M mc = Some (getBracketConnection (Suc k) (length mbr) bt cf))"
    by blast
  have c: "connections root' = connections root @ roundConnections rounds"
    using r by (simp add: connections_snoc)
  have "\<forall>c \<in> set (roundConnections rounds). \<exists>k n. c = Some (getBracketConnection k n bt cf)"
  proof
    fix x assume "x \<in> set (roundConnections rounds)"
    then obtain y mc where y: "y \<in> set rounds" and mc: "mc \<in> set (round_matches y)"
      and x: "x = connection_M mc"
      by (auto simp: roundConnections_def)
    from y obtain i where i: "i < length rounds" and yi: "rounds ! i = y"
      by (auto simp: in_set_conv_nth)
    from a i have "\<forall>mc \<in> set (round_matches (rounds ! i)).
                 connection_M mc = Some (getBracketConnection (Suc i) (length mbr) bt cf)"
      by blast
    with yi mc x have "x = Some (getBracketConnection (Suc i) (length mbr) bt cf)"
      by simp
    then show "\<exists>k n. x = Some (getBracketConnection k n bt cf)"
      by blast
  qed
  moreover have "\<exists>n. Some (getBracketConnection 1 n bt cf) \<in> set (roundConnections rounds)"
  proof -
    from ne a have f: "round_matches (rounds ! 0) \<noteq> [] \<and>
              (\<forall>mc \<in> set (round_matches (rounds ! 0)).
                 connection_M mc = Some (getBracketConnection (Suc 0) (length mbr) bt cf))"
      by auto
    then obtain mc where mc: "mc \<in> set (round_matches (rounds ! 0))"
      by (cases "round_matches (rounds ! 0)") auto
    with f have "connection_M mc = Some (getBracketConnection 1 (length mbr) bt cf)" by simp
    moreover from ne have "rounds ! 0 \<in> set rounds" by simp
    ultimately have "Some (getBracketConnection 1 (length mbr) bt cf)
                       \<in> set (roundConnections rounds)"
      using mc by (force simp: roundConnections_def)
    then show ?thesis ..
  qed
  ultimately show ?thesis using c by auto
qed

lemma renderFinal_connections:
  assumes "renderFinal E v root ft ms = Inr (v', root')"
  shows "(\<forall>c \<in> set (connections root').
            c \<in> set (connections root) \<or> (\<exists>k n. c = Some (getFinalConnection ft k n)))
         \<and> set (connections root) \<subseteq> set (connections root')"
proof -
  from renderFinal_Inr [OF assms] obtain rounds where
    r: "root' = appendToUpperBracket root rounds" and
    f: "\<forall>c \<in> set (roundConnections rounds). \<exists>k n. c = Some (getFinalConnection ft k n)"
    by blast
  from r f connections_appendToUpperBracket [of root rounds]
    connections_appendToUpperBracket_mono [of root rounds]
  show ?thesis by blast
qed

lemma renderSingleElimination_connections:
  assumes "renderSingleElimination E v root mbg = Inr (v', root')"
    and "Some (getBracketConnection k n bt cf) \<in> set (connections root')"
  shows "Some (getBracketConnection k n bt cf) \<in> set (connections root)
         \<or> (bt = single_bracket \<and> cf = None)"
proof -
  from assms(1) obtain g0 v1 root1 where
    b: "renderBracket E v root (splitBy E g0 round_id) (getRoundName E) single_bracket None
          = Inr (v1, root1)" and
    f: "renderFinal E v1 root1 consolation_final (mbg ! 1) = Inr (v', root') \<or> root' = root1"
    by (auto simp: renderSingleElimination_def Let_def
        split: list.splits sum.splits prod.splits if_splits)
  from f assms(2) have "Some (getBracketConnection k n bt cf) \<in> set (connections root1)"
    by (auto dest: renderFinal_connections)
  with renderBracket_connections [OF b] show ?thesis by auto
qed

lemma renderDoubleElimination_connections:
  assumes "renderDoubleElimination E v root mbg = Inr (v', root')"
  shows "(\<forall>k n bt cf. Some (getBracketConnection k n bt cf) \<in> set (connections root') \<longrightarrow>
            Some (getBracketConnection k n bt cf) \<in> set (connections root)
            \<or> (bt = winner_bracket \<and> cf = Some (2 < length mbg))
            \<or> (bt = loser_bracket \<and> cf = None))
         \<and> (\<exists>n. Some (getBracketConnection 1 n winner_bracket (Some (2 < length mbg)))
                  \<in> set (connections root'))"
proof -
  from assms have ne: "mbg \<noteq> []"
    by (auto simp: renderDoubleElimination_def Let_def)
  from assms [unfolded renderDoubleElimination_unfold [OF ne]]
  obtain v1 root1 v2 root2 where
    w: "renderBracket E v root (splitBy E (hd mbg) round_id) (getWinnerBracketRoundName E)
          winner_bracket (Some (2 < length mbg)) = Inr (v1, root1)" and
    l: "renderBracket E v1 root1 (splitBy E (mbg ! 1) round_id) (getLoserBracketRoundName E)
          loser_bracket None = Inr (v2, root2) \<or> root2 = root1" and
    f: "renderFinal E v2 root2 grand_final (mbg ! 2) = Inr (v', root') \<or> root' = root2"
    by (auto split: sum.splits prod.splits if_splits)
  note W = renderBracket_connections [OF w]
  have L: "(\<forall>c \<in> set (connections root2).
              c \<in> set (connections root1)
              \<or> (\<exists>k n. c = Some (getBracketConnection k n loser_bracket None)))
           \<and> set (connections root1) \<subseteq> set (connections root2)"
    using l by (auto dest: renderBracket_connections)
  have F: "(\<forall>c \<in> set (connections root').
              c \<in> set (connections root2)
              \<or> (\<exists>k n. c = Some (getFinalConnection grand_final k n)))
           \<and> set (connections root2) \<subseteq> set (connections root')"
    using f by (auto dest: renderFinal_connections)
  have "\<forall>k n bt cf. Some (getBracketConnection k n bt cf) \<in> set (connections root') \<longrightarrow>
            Some (getBracketConnection k n bt cf) \<in> set (connections root)
            \<or> (bt = winner_bracket \<and> cf = Some (2 < length mbg))
            \<or> (bt = loser_bracket \<and> cf = None)"
  proof (intro allI impI)
    fix k n bt cf
    assume "Some (getBracketConnection k n bt cf) \<in> set (connections root')"
    with F have "Some (getBracketConnection k n bt cf) \<in> set (connections root2)" by auto
    with L have "Some (getBracketConnection k n bt cf) \<in> set (connections root1)
                 \<or> (bt = loser_bracket \<and> cf = None)" by auto
    with W show "Some (getBracketConnection k n bt cf) \<in> set (connections root)
            \<or> (bt = winner_bracket \<and> cf = Some (2 < length mbg))
            \<or> (bt = loser_bracket \<and> cf = None)" by auto
  qed
  moreover from W L F have
    "\<exists>n. Some (getBracketConnection 1 n winner_bracket (Some (2 < length mbg)))
            \<in> set (connections root')"
    by blast
  ultimately show ?thesis by blast
qed

text \<open>
  Claim C5. The matches of the first round of every rendered bracket get the connection
  \<^verbatim>\<open>dom.getBracketConnection(1, roundCount, bracketType, connectFinal)\<close>, which by section
  4.7 of the spec has no backward connector. The argument \<^verbatim>\<open>connectFinal\<close> of the
  connections that a single-elimination stage adds is \<^verbatim>\<open>undefined\<close>. Of the connections
  that a double-elimination stage adds, those of the loser bracket have
  \<^verbatim>\<open>connectFinal\<close> \<^verbatim>\<open>undefined\<close> and those of the winner bracket, which exist, have it
  true exactly when the stage has a third group, the final group
  (\<^verbatim>\<open>matchesByGroup[2] !== undefined\<close>).
\<close>

theorem connection_topology:
  "(\<forall>v' root'. renderBracket E v root mbr rname bt cf = Inr (v', root') \<longrightarrow>
      (\<exists>g first rest.
         root' = root @ [BracketContainer g (first # rest)] \<and> round_matches first \<noteq> [] \<and>
         (\<forall>mc \<in> set (round_matches first).
            connection_M mc = Some (getBracketConnection 1 (length mbr) bt cf)) \<and>
         \<not> connectPrevious (bracketConnection_spec 1 (length mbr) bt cf)))
   \<and> (\<forall>v' root' k n bt' cf'.
        renderSingleElimination E v root mbg = Inr (v', root')
        \<and> Some (getBracketConnection k n bt' cf') \<in> set (connections root') \<longrightarrow>
          Some (getBracketConnection k n bt' cf') \<in> set (connections root)
          \<or> (bt' = single_bracket \<and> cf' = None))
   \<and> (\<forall>v' root'. renderDoubleElimination E v root mbg = Inr (v', root') \<longrightarrow>
        (\<forall>k n bt' cf'.
           Some (getBracketConnection k n bt' cf') \<in> set (connections root') \<longrightarrow>
             Some (getBracketConnection k n bt' cf') \<in> set (connections root)
             \<or> (bt' = winner_bracket \<and> cf' = Some (2 < length mbg))
             \<or> (bt' = loser_bracket \<and> cf' = None))
        \<and> (\<exists>n. Some (getBracketConnection 1 n winner_bracket (Some (2 < length mbg)))
                 \<in> set (connections root')))"
proof -
  have first_round: "\<exists>g first rest.
         root' = root @ [BracketContainer g (first # rest)] \<and> round_matches first \<noteq> [] \<and>
         (\<forall>mc \<in> set (round_matches first).
            connection_M mc = Some (getBracketConnection 1 (length mbr) bt cf)) \<and>
         \<not> connectPrevious (bracketConnection_spec 1 (length mbr) bt cf)"
    if h: "renderBracket E v root mbr rname bt cf = Inr (v', root')" for v' root'
  proof -
    from renderBracket_Inr [OF h] obtain g rounds where
      r: "root' = root @ [BracketContainer g rounds]" and ne: "rounds \<noteq> []" and
      a: "\<forall>k < length rounds. round_matches (rounds ! k) \<noteq> [] \<and>
              (\<forall>mc \<in> set (round_matches (rounds ! k)).
                 connection_M mc = Some (getBracketConnection (Suc k) (length mbr) bt cf))"
      by blast
    from ne obtain first rest where fr: "rounds = first # rest" by (cases rounds) auto
    with a have "round_matches first \<noteq> [] \<and>
         (\<forall>mc \<in> set (round_matches first).
            connection_M mc = Some (getBracketConnection 1 (length mbr) bt cf))"
      by auto
    with r fr show ?thesis
      by (auto simp: bracketConnection_spec_def)
  qed
  have single: "Some (getBracketConnection k n bt' cf') \<in> set (connections root)
          \<or> (bt' = single_bracket \<and> cf' = None)"
    if "renderSingleElimination E v root mbg = Inr (v', root')
        \<and> Some (getBracketConnection k n bt' cf') \<in> set (connections root')"
    for v' root' k n bt' cf'
    using that by (auto dest: renderSingleElimination_connections)
  from first_round single renderDoubleElimination_connections [of E v root mbg]
  show ?thesis by blast
qed

text \<open>A double-elimination stage with a final group, a single-elimination stage, and a
  bracket of two rounds.\<close>

theorem connection_topology_witness:
  "(\<exists>v' root'.
     renderDoubleElimination sampleModules rosterViewer [] doubleGroups = Inr (v', root')
     \<and> (\<exists>n. Some (getBracketConnection 1 n winner_bracket (Some True)) \<in> set (connections root'))
     \<and> Some (getBracketConnection 1 1 loser_bracket (Some True)) \<notin> set (connections root'))
   \<and> (\<exists>v' root'.
     renderSingleElimination sampleModules rosterViewer [] (take 1 doubleGroups) = Inr (v', root')
     \<and> Some (getBracketConnection 2 2 single_bracket (Some True)) \<notin> set (connections root'))
   \<and> (\<exists>v' g first rest.
     renderBracket sampleModules rosterViewer [] (splitBy_spec (hd doubleGroups) round_id)
       roundName_spec winner_bracket (Some True)
     = Inr (v', [BracketContainer g (first # rest)])
     \<and> map connection_M (round_matches first)
         = [Some (getBracketConnection 1 2 winner_bracket (Some True))])"
proof -
  have "\<not> isl (renderDoubleElimination sampleModules rosterViewer [] doubleGroups)"
    by code_simp
  then obtain v' root' where
    h: "renderDoubleElimination sampleModules rosterViewer [] doubleGroups = Inr (v', root')"
    by (metis old.prod.exhaust sum.collapse(2))
  have l: "2 < length doubleGroups" by (simp add: doubleGroups_def)
  from connection_topology [of sampleModules rosterViewer "[]" "[]" roundName_spec single_bracket
      None doubleGroups] h
  have a: "\<forall>k n bt' cf'.
           Some (getBracketConnection k n bt' cf') \<in> set (connections root') \<longrightarrow>
             Some (getBracketConnection k n bt' cf') \<in> set (connections [])
             \<or> (bt' = winner_bracket \<and> cf' = Some (2 < length doubleGroups))
             \<or> (bt' = loser_bracket \<and> cf' = None)"
    and b: "\<exists>n. Some (getBracketConnection 1 n winner_bracket (Some (2 < length doubleGroups)))
                 \<in> set (connections root')"
    by blast+
  from b l have "\<exists>n. Some (getBracketConnection 1 n winner_bracket (Some True))
                        \<in> set (connections root')"
    by simp
  moreover have
    "Some (getBracketConnection 1 1 loser_bracket (Some True)) \<notin> set (connections root')"
  proof
    assume "Some (getBracketConnection 1 1 loser_bracket (Some True)) \<in> set (connections root')"
    with a have "Some (getBracketConnection 1 1 loser_bracket (Some True)) \<in> set (connections [])
             \<or> (loser_bracket = winner_bracket \<and> Some True = Some (2 < length doubleGroups))
             \<or> (loser_bracket = loser_bracket \<and> Some True = None)"
      by blast
    then show False by (simp add: connections_def)
  qed
  ultimately have double: "\<exists>v' root'.
     renderDoubleElimination sampleModules rosterViewer [] doubleGroups = Inr (v', root')
     \<and> (\<exists>n. Some (getBracketConnection 1 n winner_bracket (Some True)) \<in> set (connections root'))
     \<and> Some (getBracketConnection 1 1 loser_bracket (Some True)) \<notin> set (connections root')"
    using h by blast
  have "\<not> isl (renderSingleElimination sampleModules rosterViewer [] (take 1 doubleGroups))"
    by code_simp
  then obtain v1 root1 where
    h1: "renderSingleElimination sampleModules rosterViewer [] (take 1 doubleGroups)
           = Inr (v1, root1)"
    by (metis old.prod.exhaust sum.collapse(2))
  have "Some (getBracketConnection 2 2 single_bracket (Some True)) \<notin> set (connections root1)"
  proof
    assume "Some (getBracketConnection 2 2 single_bracket (Some True)) \<in> set (connections root1)"
    with connection_topology [of sampleModules rosterViewer "[]" "[]" roundName_spec
        single_bracket None "take 1 doubleGroups"] h1
    have "Some (getBracketConnection 2 2 single_bracket (Some True)) \<in> set (connections [])
          \<or> (single_bracket = single_bracket \<and> Some True = None)"
      by blast
    then show False by (simp add: connections_def)
  qed
  with h1 have single: "\<exists>v' root'.
     renderSingleElimination sampleModules rosterViewer [] (take 1 doubleGroups) = Inr (v', root')
     \<and> Some (getBracketConnection 2 2 single_bracket (Some True)) \<notin> set (connections root')"
    by blast
  have "\<not> isl (renderBracket sampleModules rosterViewer []
                 (splitBy_spec (hd doubleGroups) round_id) roundName_spec winner_bracket
                 (Some True))"
    by code_simp
  then obtain v2 root2 where
    h2: "renderBracket sampleModules rosterViewer [] (splitBy_spec (hd doubleGroups) round_id)
           roundName_spec winner_bracket (Some True) = Inr (v2, root2)"
    by (metis old.prod.exhaust sum.collapse(2))
  have len: "length (splitBy_spec (hd doubleGroups) round_id) = 2"
    by code_simp
  from connection_topology [of sampleModules rosterViewer "[]"
      "splitBy_spec (hd doubleGroups) round_id" roundName_spec winner_bracket "Some True" "[]",
      THEN conjunct1, rule_format, OF h2]
  obtain g first rest where
    r: "root2 = [] @ [BracketContainer g (first # rest)]" and ne: "round_matches first \<noteq> []" and
    c: "\<forall>mc \<in> set (round_matches first).
          connection_M mc
            = Some (getBracketConnection 1 (length (splitBy_spec (hd doubleGroups) round_id))
                      winner_bracket (Some True))"
    by blast
  have "case renderBracket sampleModules rosterViewer []
               (splitBy_spec (hd doubleGroups) round_id) roundName_spec winner_bracket
               (Some True) of
          Inl e \<Rightarrow> False
        | Inr (v, root) \<Rightarrow> length (round_matches (hd (upperBracketRounds root))) = 1"
    by code_simp
  with h2 have one: "length (round_matches (hd (upperBracketRounds root2))) = 1"
    by simp
  from r one have "length (round_matches first) = 1" by simp
  then obtain mc where mc: "round_matches first = [mc]"
    by (cases "round_matches first") auto
  with c len have "map connection_M (round_matches first)
         = [Some (getBracketConnection 1 2 winner_bracket (Some True))]"
    by simp
  with h2 r have bracket: "\<exists>v' g first rest.
     renderBracket sampleModules rosterViewer [] (splitBy_spec (hd doubleGroups) round_id)
       roundName_spec winner_bracket (Some True)
     = Inr (v', [BracketContainer g (first # rest)])
     \<and> map connection_M (round_matches first)
         = [Some (getBracketConnection 1 2 winner_bracket (Some True))]"
    by auto
  from double single bracket show ?thesis by blast
qed

section \<open>Stage kinds\<close>

lemma forEachE_append:
  "forEachE f s (xs @ ys) =
     (case forEachE f s xs of Inl e \<Rightarrow> Inl e | Inr s' \<Rightarrow> forEachE f s' ys)"
  by (induction xs arbitrary: s) (auto split: sum.splits)

lemma renderStage_unknown:
  assumes "type_S stage \<noteq> ''round_robin''" "type_S stage \<noteq> ''single_elimination''"
    "type_S stage \<noteq> ''double_elimination''"
  shows "renderStage E v root (data\<lparr>stages_D := [stage], matches_D := ms\<rparr>) =
         Inl (Error (''Unknown bracket type: '' @ type_S stage))"
  using assms by (simp add: renderStage_def Let_def)

text \<open>
  Claim C7. For a stage whose kind is none of \<^verbatim>\<open>round_robin\<close>,
  \<^verbatim>\<open>single_elimination\<close> and \<^verbatim>\<open>double_elimination\<close>, \<^verbatim>\<open>renderStage\<close> throws the error
  \<^verbatim>\<open>Unknown bracket type: \<close> followed by the kind; and \<^verbatim>\<open>render\<close> ends with that same
  error as soon as the stages before it are rendered: nothing catches it and no later
  stage is tried.
\<close>

theorem unknown_stage_kind:
  assumes "type_S stage \<notin> {''round_robin'', ''single_elimination'', ''double_elimination''}"
  shows "renderStage E v root (data\<lparr>stages_D := [stage]\<rparr>) =
           Inl (Error (''Unknown bracket type: '' @ type_S stage))
         \<and> (\<forall>earlier later r.
              stages_D data = earlier @ stage # later
              \<and> render E v (data\<lparr>stages_D := earlier\<rparr>) cfg = Inr r
              \<longrightarrow> render E v data cfg = Inl (Error (''Unknown bracket type: '' @ type_S stage)))"
proof (intro conjI allI impI)
  from assms show "renderStage E v root (data\<lparr>stages_D := [stage]\<rparr>) =
           Inl (Error (''Unknown bracket type: '' @ type_S stage))"
    by (simp add: renderStage_def Let_def)
next
  fix pre post r
  assume a: "stages_D data = pre @ stage # post
              \<and> render E v (data\<lparr>stages_D := pre\<rparr>) cfg = Inr r"
  obtain v1 root1 where r: "r = (v1, root1)" by (cases r)
  from assms have u: "renderStage E v1 root1
            (data\<lparr>stages_D := [stage],
                  matches_D := filter (\<lambda>match. stage_id match = id_S stage) (matches_D data)\<rparr>)
          = Inl (Error (''Unknown bracket type: '' @ type_S stage))"
    by (intro renderStage_unknown) auto
  from a r have "forEachE
       (\<lambda>(v1, root) stage.
          renderStage E v1 root
            (data\<lparr>stages_D := [stage],
                  matches_D := filter (\<lambda>match. stage_id match = id_S stage) (matches_D data)\<rparr>))
       (renderSetup v data cfg, []) pre = Inr (v1, root1)"
    by (simp add: render_def renderSetup_def)
  with a u show "render E v data cfg = Inl (Error (''Unknown bracket type: '' @ type_S stage))"
    by (simp add: render_def forEachE_append)
qed

text \<open>A single-elimination stage that is rendered, followed by a stage of kind
  \<^verbatim>\<open>swiss\<close>.\<close>

theorem unknown_stage_kind_witness:
  "render sampleModules newBracketsViewer
     (declaredData\<lparr>stages_D := [sampleStage ''single_elimination'', sampleStage ''swiss'']\<rparr>) None
   = Inl (Error ''Unknown bracket type: swiss'')"
proof -
  have k: "type_S (sampleStage ''swiss'')
           \<notin> {''round_robin'', ''single_elimination'', ''double_elimination''}"
    by (simp add: sampleStage_def)
  have "\<not> isl (render sampleModules newBracketsViewer
     (declaredData\<lparr>stages_D := [sampleStage ''single_elimination'']\<rparr>) None)"
    by code_simp
  then obtain r where
    h: "render sampleModules newBracketsViewer
     (declaredData\<lparr>stages_D := [sampleStage ''single_elimination'']\<rparr>) None = Inr r"
    by (metis isl_def sum.collapse(2))
  from unknown_stage_kind [OF k, of sampleModules newBracketsViewer "[]"
      "declaredData\<lparr>stages_D := [sampleStage ''single_elimination'', sampleStage ''swiss'']\<rparr>" None]
  have "stages_D (declaredData\<lparr>stages_D := [sampleStage ''single_elimination'', sampleStage ''swiss'']\<rparr>)
           = [sampleStage ''single_elimination''] @ sampleStage ''swiss'' # []
        \<and> render sampleModules newBracketsViewer
            (declaredData\<lparr>stages_D := [sampleStage ''single_elimination'', sampleStage ''swiss''],
                          stages_D := [sampleStage ''single_elimination'']\<rparr>) None = Inr r
        \<longrightarrow> render sampleModules newBracketsViewer
     (declaredData\<lparr>stages_D := [sampleStage ''single_elimination'', sampleStage ''swiss'']\<rparr>) None
       = Inl (Error (''Unknown bracket type: '' @ type_S (sampleStage ''swiss'')))"
    by blast
  with h show ?thesis by (simp add: sampleStage_def)
qed

section \<open>The options for slot origins\<close>

lemma renderParticipantImage_fields:
  "hint (renderParticipantImage v nc pid) = hint nc \<and>
   origin (renderParticipantImage v nc pid) = origin nc"
  by (simp add: renderParticipantImage_def split: option.splits)

text \<open>With the slot origins off, or in the loser bracket with its slot origins off, a
  participant gets neither a hint nor an origin.\<close>

lemma createParticipant_suppressed:
  assumes "createParticipant E v p oh loc rn = Inr (v', c)"
    and "\<not> showSlotsOrigin (config v)
         \<or> (\<not> showLowerBracketSlotsOrigin (config v) \<and> loc = Some loser_bracket)"
  shows "hint (name c) = None \<and> origin (name c) = None"
  using assms
  by (auto simp: createParticipant_def renderParticipant_def renderHint_def
      renderParticipantOrigin_def newContainers_def renderParticipantImage_fields Let_def
      split: option.splits sum.splits if_splits)

lemma createMatch_suppressed:
  assumes "createMatch E v m loc conn l oh rn = Inr (v', mc)"
    and "\<not> showSlotsOrigin (config v)
         \<or> (\<not> showLowerBracketSlotsOrigin (config v) \<and> loc = Some loser_bracket)"
  shows "hint (name (participant1_M mc)) = None \<and> origin (name (participant1_M mc)) = None \<and>
         hint (name (participant2_M mc)) = None \<and> origin (name (participant2_M mc)) = None"
proof -
  from assms(1) obtain v1 c1 c2 where
    p1: "createParticipant E v (opponent1 m) oh loc rn = Inr (v1, c1)" and
    p2: "createParticipant E v1 (opponent2 m) oh loc rn = Inr (v', c2)" and
    mc: "participant1_M mc = c1" "participant2_M mc = c2"
    by (auto simp: createMatch_def split: sum.splits prod.splits)
  from createParticipant_config [OF p1] assms(2) have
    "\<not> showSlotsOrigin (config v1)
         \<or> (\<not> showLowerBracketSlotsOrigin (config v1) \<and> loc = Some loser_bracket)"
    by simp
  from createParticipant_suppressed [OF p1 assms(2)] createParticipant_suppressed [OF p2 this] mc
  show ?thesis by simp
qed

lemma createParticipant_lowerOn:
  assumes "loc \<noteq> Some loser_bracket"
  shows "createParticipant E (lowerOn v) p oh loc rn =
         map_sum id (\<lambda>(v', c). (lowerOn v', c)) (createParticipant E v p oh loc rn)"
  using assms
  by (cases loc)
     (auto simp: createParticipant_def renderParticipant_def renderHint_def
      renderParticipantOrigin_def newContainers_def renderParticipantImage_def Let_def
      findParticipant_def setupMouseHover_def lowerOn_def
      split: option.splits sum.splits if_splits)

lemma createMatch_lowerOn:
  assumes "loc \<noteq> Some loser_bracket"
  shows "createMatch E (lowerOn v) m loc conn l oh rn =
         map_sum id (\<lambda>(v', mc). (lowerOn v', mc)) (createMatch E v m loc conn l oh rn)"
proof (cases "createParticipant E v (opponent1 m) oh loc rn")
  case (Inl e)
  then show ?thesis
    by (simp add: createMatch_def createParticipant_lowerOn [OF assms])
next
  case (Inr r)
  obtain v1 c1 where r: "r = (v1, c1)" by (cases r)
  have c: "config (lowerOn v) = (config v)\<lparr>showLowerBracketSlotsOrigin := True\<rparr>"
    by (simp add: lowerOn_def)
  show ?thesis
  proof (cases "createParticipant E v1 (opponent2 m) oh loc rn")
    case (Inl e)
    with Inr r show ?thesis
      by (simp add: createMatch_def createParticipant_lowerOn [OF assms])
  next
    case second: (Inr r2)
    obtain v2 c2 where r2: "r2 = (v2, c2)" by (cases r2)
    from Inr r second r2 show ?thesis
      by (simp add: createMatch_def createParticipant_lowerOn [OF assms] c split: option.splits)
  qed
qed

text \<open>
  Claim C8. Each of the two options is a field of its own of the configuration. When
  \<^verbatim>\<open>showSlotsOrigin\<close> is false, \<^verbatim>\<open>renderHint\<close> and \<^verbatim>\<open>renderParticipantOrigin\<close> change
  nothing and no participant of any match gets a hint or an origin, whatever the location
  of the match. When \<^verbatim>\<open>showSlotsOrigin\<close> is true and \<^verbatim>\<open>showLowerBracketSlotsOrigin\<close> is
  false, the same holds for a match in the loser bracket, and a match anywhere else is
  rendered as it is with \<^verbatim>\<open>showLowerBracketSlotsOrigin\<close> true.
\<close>

theorem slots_origin_options:
  "showSlotsOrigin (makeConfig (Some (c\<lparr>showLowerBracketSlotsOrigin_opt := x\<rparr>)))
     = showSlotsOrigin (makeConfig (Some c))
   \<and> showLowerBracketSlotsOrigin (makeConfig (Some (c\<lparr>showSlotsOrigin_opt := y\<rparr>)))
       = showLowerBracketSlotsOrigin (makeConfig (Some c))
   \<and> (\<not> showSlotsOrigin (config v) \<longrightarrow>
      renderHint v nc p oh loc = nc \<and> renderParticipantOrigin E v nc p loc rn = nc \<and>
      (\<forall>v' mc. createMatch E v m loc conn l oh rn = Inr (v', mc) \<longrightarrow>
         hint (name (participant1_M mc)) = None \<and> origin (name (participant1_M mc)) = None \<and>
         hint (name (participant2_M mc)) = None \<and> origin (name (participant2_M mc)) = None))
   \<and> (showSlotsOrigin (config v) \<and> \<not> showLowerBracketSlotsOrigin (config v) \<longrightarrow>
        (loc = Some loser_bracket \<longrightarrow>
           renderHint v nc p oh loc = nc \<and> renderParticipantOrigin E v nc p loc rn = nc \<and>
           (\<forall>v' mc. createMatch E v m loc conn l oh rn = Inr (v', mc) \<longrightarrow>
              hint (name (participant1_M mc)) = None \<and> origin (name (participant1_M mc)) = None \<and>
              hint (name (participant2_M mc)) = None \<and> origin (name (participant2_M mc)) = None))
        \<and> (loc \<noteq> Some loser_bracket \<longrightarrow>
             renderHint v nc p oh loc = renderHint (lowerOn v) nc p oh loc \<and>
             renderParticipantOrigin E v nc p loc rn
               = renderParticipantOrigin E (lowerOn v) nc p loc rn \<and>
             map_sum id snd (createMatch E v m loc conn l oh rn)
               = map_sum id snd (createMatch E (lowerOn v) m loc conn l oh rn)))"
proof -
  have fields: "showSlotsOrigin (makeConfig (Some (c\<lparr>showLowerBracketSlotsOrigin_opt := x\<rparr>)))
     = showSlotsOrigin (makeConfig (Some c))
   \<and> showLowerBracketSlotsOrigin (makeConfig (Some (c\<lparr>showSlotsOrigin_opt := y\<rparr>)))
       = showLowerBracketSlotsOrigin (makeConfig (Some c))"
    by (simp add: makeConfig_def)
  have off: "renderHint v nc p oh loc = nc \<and> renderParticipantOrigin E v nc p loc rn = nc"
    if "\<not> showSlotsOrigin (config v)
         \<or> (\<not> showLowerBracketSlotsOrigin (config v) \<and> loc = Some loser_bracket)"
    using that
    by (auto simp: renderHint_def renderParticipantOrigin_def split: option.splits)
  have off_match:
    "\<forall>v' mc. createMatch E v m loc conn l oh rn = Inr (v', mc) \<longrightarrow>
         hint (name (participant1_M mc)) = None \<and> origin (name (participant1_M mc)) = None \<and>
         hint (name (participant2_M mc)) = None \<and> origin (name (participant2_M mc)) = None"
    if "\<not> showSlotsOrigin (config v)
         \<or> (\<not> showLowerBracketSlotsOrigin (config v) \<and> loc = Some loser_bracket)"
    using that createMatch_suppressed [of E v m loc conn l oh rn] by blast
  have same: "renderHint v nc p oh loc = renderHint (lowerOn v) nc p oh loc \<and>
             renderParticipantOrigin E v nc p loc rn
               = renderParticipantOrigin E (lowerOn v) nc p loc rn"
    if "loc \<noteq> Some loser_bracket"
    using that
    by (auto simp: renderHint_def renderParticipantOrigin_def lowerOn_def split: option.splits)
  have same_match: "map_sum id snd (createMatch E v m loc conn l oh rn)
               = map_sum id snd (createMatch E (lowerOn v) m loc conn l oh rn)"
    if "loc \<noteq> Some loser_bracket"
    by (cases "createMatch E v m loc conn l oh rn")
       (auto simp: createMatch_lowerOn [OF that])
  from fields off off_match same same_match show ?thesis by blast
qed

text \<open>A slot of position 1 whose participant is not known yet, with an origin hint. With
  the slot origins off, nothing is rendered in the winner bracket. With only the slot
  origins of the loser bracket off, nothing is rendered in the loser bracket and the
  hint is rendered in the winner bracket.\<close>

theorem slots_origin_options_witness:
  "renderHint (renderSetup newBracketsViewer otherRoster (Some originsOff))
     (name (newContainers None)) (opponent None None) (Some (\<lambda>pos. ''Seed'')) (Some winner_bracket)
   = name (newContainers None)
   \<and> renderHint (renderSetup newBracketsViewer otherRoster (Some lowerOff))
       (name (newContainers None)) (opponent None None) (Some (\<lambda>pos. ''Seed'')) (Some loser_bracket)
     = name (newContainers None)
   \<and> hint (renderHint (renderSetup newBracketsViewer otherRoster (Some lowerOff))
       (name (newContainers None)) (opponent None None) (Some (\<lambda>pos. ''Seed''))
       (Some winner_bracket))
     = Some ''Seed''"
proof -
  have off: "\<not> showSlotsOrigin (config (renderSetup newBracketsViewer otherRoster (Some originsOff)))"
    by (simp add: renderSetup_def makeConfig_def originsOff_def hoverOff_def)
  have low: "showSlotsOrigin (config (renderSetup newBracketsViewer otherRoster (Some lowerOff)))
             \<and> \<not> showLowerBracketSlotsOrigin
                   (config (renderSetup newBracketsViewer otherRoster (Some lowerOff)))"
    by (simp add: renderSetup_def makeConfig_def lowerOff_def hoverOff_def)
  from slots_origin_options [of _ _ _ "renderSetup newBracketsViewer otherRoster (Some originsOff)"
      "name (newContainers None)" "opponent None None" "Some (\<lambda>pos. ''Seed'')"
      "Some winner_bracket"] off
  have a: "renderHint (renderSetup newBracketsViewer otherRoster (Some originsOff))
     (name (newContainers None)) (opponent None None) (Some (\<lambda>pos. ''Seed'')) (Some winner_bracket)
   = name (newContainers None)"
    by blast
  from slots_origin_options [of _ _ _ "renderSetup newBracketsViewer otherRoster (Some lowerOff)"
      "name (newContainers None)" "opponent None None" "Some (\<lambda>pos. ''Seed'')"
      "Some loser_bracket"] low
  have b: "renderHint (renderSetup newBracketsViewer otherRoster (Some lowerOff))
       (name (newContainers None)) (opponent None None) (Some (\<lambda>pos. ''Seed'')) (Some loser_bracket)
     = name (newContainers None)"
    by blast
  have w: "Some winner_bracket \<noteq> Some loser_bracket" by simp
  from slots_origin_options [of _ _ _ "renderSetup newBracketsViewer otherRoster (Some lowerOff)"
      "name (newContainers None)" "opponent None None" "Some (\<lambda>pos. ''Seed'')"
      "Some winner_bracket"] low w
  have "renderHint (renderSetup newBracketsViewer otherRoster (Some lowerOff))
       (name (newContainers None)) (opponent None None) (Some (\<lambda>pos. ''Seed''))
       (Some winner_bracket)
     = renderHint (lowerOn (renderSetup newBracketsViewer otherRoster (Some lowerOff)))
       (name (newContainers None)) (opponent None None) (Some (\<lambda>pos. ''Seed''))
       (Some winner_bracket)"
    by blast
  then have c: "hint (renderHint (renderSetup newBracketsViewer otherRoster (Some lowerOff))
       (name (newContainers None)) (opponent None None) (Some (\<lambda>pos. ''Seed''))
       (Some winner_bracket))
     = Some ''Seed''"
    by (simp add: renderHint_def lowerOn_def renderSetup_def makeConfig_def lowerOff_def
        hoverOff_def opponent_def)
  from a b c show ?thesis by blast
qed

section \<open>The defaults of the options\<close>

text \<open>
  Claim C9. Without options, the configuration of a call of \<^verbatim>\<open>render\<close> is: origin
  placed before the name, no separate label for the child count, slot origins shown,
  slot origins of the loser bracket shown, participants highlighted on hover. An option
  that is left out of the given options takes the same default, whatever the others are,
  and the configuration the methods read during the call is the one built this way.
\<close>

theorem makeConfig_defaults:
  "makeConfig None =
     \<lparr>participantOriginPlacement = before, separatedChildCountLabel = False,
      showSlotsOrigin = True, showLowerBracketSlotsOrigin = True,
      highlightParticipantOnHover = True\<rparr>
   \<and> participantOriginPlacement
       (makeConfig (Some (c\<lparr>participantOriginPlacement_opt := None\<rparr>))) = before
   \<and> separatedChildCountLabel
       (makeConfig (Some (c\<lparr>separatedChildCountLabel_opt := None\<rparr>))) = False
   \<and> showSlotsOrigin (makeConfig (Some (c\<lparr>showSlotsOrigin_opt := None\<rparr>))) = True
   \<and> showLowerBracketSlotsOrigin
       (makeConfig (Some (c\<lparr>showLowerBracketSlotsOrigin_opt := None\<rparr>))) = True
   \<and> highlightParticipantOnHover
       (makeConfig (Some (c\<lparr>highlightParticipantOnHover_opt := None\<rparr>))) = True
   \<and> config (renderSetup v data cfg) = makeConfig cfg
   \<and> (\<forall>v' root. render E v data cfg = Inr (v', root) \<longrightarrow> config v' = makeConfig cfg)"
proof -
  have "config v' = makeConfig cfg" if "render E v data cfg = Inr (v', root)" for v' root
    using render_settings [OF that] by (simp add: settingsOf_def)
  then show ?thesis
    by (simp add: makeConfig_def renderSetup_def)
qed

text \<open>Options that only switch the hover highlighting off: the slot origins keep their
  default.\<close>

theorem makeConfig_defaults_witness:
  "showSlotsOrigin (makeConfig (Some hoverOff)) = True
   \<and> highlightParticipantOnHover (makeConfig (Some hoverOff)) = False"
proof -
  have e: "hoverOff\<lparr>showSlotsOrigin_opt := None\<rparr> = hoverOff"
    by (simp add: hoverOff_def)
  from makeConfig_defaults [of hoverOff] e
  have "showSlotsOrigin (makeConfig (Some hoverOff)) = True" by simp
  moreover have "highlightParticipantOnHover (makeConfig (Some hoverOff)) = False"
    by (simp add: makeConfig_def hoverOff_def)
  ultimately show ?thesis by simp
qed

end
